theory Spec2Isabelle
  imports Main "HOL-Library.AList" "HOL-Library.Word"
begin

section \<open>The package fetcher \<open>nula-packages.py\<close>\<close>

text \<open>
  The program is a thin wrapper over the file system, one HTTP request and the standard
  output. Each of the three is made explicit: the file system and the printed lines are a
  state that every operation takes and returns, the HTTP server and the process environment
  (home directory, working directory) are parameters, and every exception of the Python
  code is a value. The library functions the script calls (\<open>os.path\<close>, \<open>os\<close>,
  \<open>shutil\<close>, \<open>requests\<close>) are modelled after their implementations on a POSIX system.
  Python strings are byte strings here; the encoding of file names and of the output is
  not modelled.
\<close>

subsection \<open>Path strings (\<open>posixpath\<close>)\<close>

text \<open>\<open>str.split('/')\<close>: the pieces between the separators, empty pieces included.\<close>

fun split_sep :: "string \<Rightarrow> string list" where
  "split_sep [] = [[]]"
| "split_sep (c # cs) =
     (if c = CHR ''/'' then [] # split_sep cs
      else (case split_sep cs of w # ws \<Rightarrow> (c # w) # ws | [] \<Rightarrow> [[c]]))"

text \<open>
  \<open>os.path.join(a, b)\<close>:
  \<^verbatim>\<open>
  if b.startswith(sep) or not path: path = b
  elif path.endswith(sep): path += b
  else: path += sep + b
  \<close>
\<close>

definition path_join :: "string \<Rightarrow> string \<Rightarrow> string" where
  "path_join a b =
     (if (b \<noteq> [] \<and> hd b = CHR ''/'') \<or> a = [] then b
      else if last a = CHR ''/'' then a @ b
      else a @ ''/'' @ b)"

text \<open>\<open>os.path.basename(p)\<close>: what follows the last separator.\<close>

definition path_basename :: "string \<Rightarrow> string" where
  "path_basename p = rev (takeWhile (\<lambda>c. c \<noteq> CHR ''/'') (rev p))"

text \<open>
  \<open>os.path.split(p)\<close>: head (up to the last separator, trailing separators stripped
  unless the head is separators only) and tail (what follows the last separator).
\<close>

definition path_split :: "string \<Rightarrow> string \<times> string" where
  "path_split p =
     (let head = rev (dropWhile (\<lambda>c. c \<noteq> CHR ''/'') (rev p));
          tail = rev (takeWhile (\<lambda>c. c \<noteq> CHR ''/'') (rev p))
      in (if head \<noteq> [] \<and> \<not> list_all (\<lambda>c. c = CHR ''/'') head
          then rev (dropWhile (\<lambda>c. c = CHR ''/'') (rev head)) else head, tail))"

subsection \<open>The file system\<close>

text \<open>
  A file is a byte string, a directory has entries; both carry one permission bit, whether
  the process may write (a file's content, a directory's entries). The file system is an
  association list from absolute paths (the list of component names below the root, the
  root itself being \<open>[]\<close>) to nodes; the order of the list is the order in which a
  directory's entries are enumerated. Symbolic and hard links, special files, ownership,
  read and search permission and the space left on the device are not modelled.
\<close>

type_synonym bytes = "8 word list"
type_synonym path = "string list"

datatype node = File (content: bytes) (writable: bool) | Dir (writable: bool)

type_synonym filesystem = "(path \<times> node) list"

datatype os_error = ENOENT | ENOTDIR | EISDIR | EACCES | EEXIST | SameFileError

text \<open>
  Path resolution as the kernel does it: from the root for an absolute path string and from
  the working directory otherwise, one component at a time; empty components and \<open>.\<close> are
  skipped, \<open>..\<close> steps to the parent (the root is its own parent), and every node that is
  stepped through has to be a directory. The result is the path of the last component,
  which need not exist. None of the strings this program hands to the system ends in a
  separator, so the rule for a trailing separator is left out.
\<close>

fun walk :: "filesystem \<Rightarrow> path \<Rightarrow> string list \<Rightarrow> os_error + path" where
  "walk fs d [] = Inr d"
| "walk fs d (c # cs) =
     (case map_of fs d of
        None \<Rightarrow> Inl ENOENT
      | Some (File _ _) \<Rightarrow> Inl ENOTDIR
      | Some (Dir _) \<Rightarrow> walk fs (if c = ''..'' then butlast d else d @ [c]) cs)"

definition components :: "string \<Rightarrow> string list" where
  "components s = filter (\<lambda>c. c \<noteq> [] \<and> c \<noteq> ''.'') (split_sep s)"

definition resolve :: "filesystem \<Rightarrow> path \<Rightarrow> string \<Rightarrow> os_error + path" where
  "resolve fs wd s =
     (if s = [] then Inl ENOENT
      else walk fs (if hd s = CHR ''/'' then [] else wd) (components s))"

text \<open>\<open>os.path.exists\<close> and \<open>os.path.isdir\<close>: false on every error of \<open>stat\<close>.\<close>

definition path_exists :: "filesystem \<Rightarrow> path \<Rightarrow> string \<Rightarrow> bool" where
  "path_exists fs wd s =
     (case resolve fs wd s of Inl _ \<Rightarrow> False | Inr p \<Rightarrow> map_of fs p \<noteq> None)"

definition path_isdir :: "filesystem \<Rightarrow> path \<Rightarrow> string \<Rightarrow> bool" where
  "path_isdir fs wd s =
     (case resolve fs wd s of
        Inl _ \<Rightarrow> False
      | Inr p \<Rightarrow> (case map_of fs p of Some (Dir _) \<Rightarrow> True | _ \<Rightarrow> False))"

text \<open>Whether the node at an absolute path is a directory.\<close>

definition is_dir :: "filesystem \<Rightarrow> path \<Rightarrow> bool" where
  "is_dir fs x = (case map_of fs x of Some (Dir _) \<Rightarrow> True | _ \<Rightarrow> False)"

text \<open>The entries directly inside the directory \<open>d\<close>, names only, in enumeration order.\<close>

definition children :: "filesystem \<Rightarrow> path \<Rightarrow> string list" where
  "children fs d = map last (filter (\<lambda>q. q \<noteq> [] \<and> butlast q = d) (map fst fs))"

text \<open>\<open>os.listdir(s)\<close>.\<close>

definition os_listdir :: "filesystem \<Rightarrow> path \<Rightarrow> string \<Rightarrow> os_error + string list" where
  "os_listdir fs wd s =
     (case resolve fs wd s of
        Inl err \<Rightarrow> Inl err
      | Inr p \<Rightarrow>
          (case map_of fs p of
             None \<Rightarrow> Inl ENOENT
           | Some (File _ _) \<Rightarrow> Inl ENOTDIR
           | Some (Dir _) \<Rightarrow> Inr (children fs p)))"

text \<open>
  \<open>open(s, "wb")\<close>: an existing file is truncated (it has to be writable), a missing one
  is created in its directory (which has to exist and be writable); the result is the new
  file system and the path of the open file.
\<close>

definition open_wb :: "filesystem \<Rightarrow> path \<Rightarrow> string \<Rightarrow> os_error + filesystem \<times> path" where
  "open_wb fs wd s =
     (case resolve fs wd s of
        Inl err \<Rightarrow> Inl err
      | Inr p \<Rightarrow>
          (case map_of fs p of
             Some (Dir _) \<Rightarrow> Inl EISDIR
           | Some (File _ w) \<Rightarrow>
               if w then Inr (AList.update p (File [] w) fs, p) else Inl EACCES
           | None \<Rightarrow>
               (case map_of fs (butlast p) of
                  None \<Rightarrow> Inl ENOENT
                | Some (File _ _) \<Rightarrow> Inl ENOTDIR
                | Some (Dir w) \<Rightarrow>
                    if p \<noteq> [] \<and> w then Inr (AList.update p (File [] True) fs, p)
                    else Inl EACCES)))"

text \<open>\<open>f.write(data)\<close> on a file just opened with \<open>"wb"\<close> (and closed right after).\<close>

definition file_write :: "filesystem \<Rightarrow> path \<Rightarrow> bytes \<Rightarrow> filesystem" where
  "file_write fs p data =
     (case map_of fs p of
        Some (File _ w) \<Rightarrow> AList.update p (File data w) fs
      | _ \<Rightarrow> fs)"

text \<open>\<open>open(s, "rb").read()\<close>.\<close>

definition read_rb :: "filesystem \<Rightarrow> path \<Rightarrow> string \<Rightarrow> os_error + bytes \<times> bool" where
  "read_rb fs wd s =
     (case resolve fs wd s of
        Inl err \<Rightarrow> Inl err
      | Inr p \<Rightarrow>
          (case map_of fs p of
             None \<Rightarrow> Inl ENOENT
           | Some (Dir _) \<Rightarrow> Inl EISDIR
           | Some (File data w) \<Rightarrow> Inr (data, w)))"

text \<open>
  \<open>os.path.samefile\<close> as \<open>shutil\<close> uses it: both paths lead to the same existing node;
  false when either cannot be examined.
\<close>

definition samefile :: "filesystem \<Rightarrow> path \<Rightarrow> string \<Rightarrow> string \<Rightarrow> bool" where
  "samefile fs wd a b =
     (case (resolve fs wd a, resolve fs wd b) of
        (Inr p, Inr q) \<Rightarrow> p = q \<and> map_of fs p \<noteq> None
      | _ \<Rightarrow> False)"

text \<open>
  \<open>shutil.copy(src, dst)\<close>:
  \<^verbatim>\<open>
  if os.path.isdir(dst):
      dst = os.path.join(dst, os.path.basename(src))
  copyfile(src, dst)      # SameFileError; open(src, 'rb'); open(dst, 'wb'); copy bytes
  copymode(src, dst)      # the permission bits of src
  \<close>
\<close>

definition copy_dst :: "filesystem \<Rightarrow> path \<Rightarrow> string \<Rightarrow> string \<Rightarrow> string" where
  "copy_dst fs wd src dst =
     (if path_isdir fs wd dst then path_join dst (path_basename src) else dst)"

definition shutil_copy :: "filesystem \<Rightarrow> path \<Rightarrow> string \<Rightarrow> string \<Rightarrow> os_error + filesystem" where
  "shutil_copy fs wd src dst =
     (let dst' = copy_dst fs wd src dst
      in if samefile fs wd src dst' then Inl SameFileError
         else (case read_rb fs wd src of
                 Inl err \<Rightarrow> Inl err
               | Inr (data, w) \<Rightarrow>
                   (case open_wb fs wd dst' of
                      Inl err \<Rightarrow> Inl err
                    | Inr (fs', q) \<Rightarrow> Inr (AList.update q (File data w) fs'))))"

text \<open>\<open>os.mkdir(s)\<close>.\<close>

definition os_mkdir :: "filesystem \<Rightarrow> path \<Rightarrow> string \<Rightarrow> os_error + filesystem" where
  "os_mkdir fs wd s =
     (case resolve fs wd s of
        Inl err \<Rightarrow> Inl err
      | Inr p \<Rightarrow>
          (case map_of fs p of
             Some _ \<Rightarrow> Inl EEXIST
           | None \<Rightarrow>
               (case map_of fs (butlast p) of
                  None \<Rightarrow> Inl ENOENT
                | Some (File _ _) \<Rightarrow> Inl ENOTDIR
                | Some (Dir w) \<Rightarrow>
                    if p \<noteq> [] \<and> w then Inr (AList.update p (Dir True) fs)
                    else Inl EACCES)))"

text \<open>
  \<open>os.makedirs(name)\<close> (with \<open>exist_ok=False\<close>):
  \<^verbatim>\<open>
  head, tail = path.split(name)
  if not tail:
      head, tail = path.split(head)
  if head and tail and not path.exists(head):
      try:
          makedirs(head, exist_ok=exist_ok)
      except FileExistsError:
          pass
      if tail == curdir:
          return
  mkdir(name, mode)
  \<close>
  A directory made before an error stays, so the file system is returned in both cases.
\<close>

definition makedirs_split :: "string \<Rightarrow> string \<times> string" where
  "makedirs_split name =
     (let ht = path_split name in if snd ht = [] then path_split (fst ht) else ht)"

lemma path_split_length:
  "length (fst (path_split p)) + length (snd (path_split p)) \<le> length p"
proof -
  let ?P = "\<lambda>c. c \<noteq> CHR ''/''"
  let ?h = "rev (dropWhile ?P (rev p))"
  have "length (dropWhile (\<lambda>c. c = CHR ''/'') (rev ?h)) \<le> length ?h"
    by (rule order_trans [OF length_dropWhile_le]) simp
  then have "length (fst (path_split p)) \<le> length (dropWhile ?P (rev p))"
    by (simp add: path_split_def Let_def)
  moreover have "length (snd (path_split p)) = length (takeWhile ?P (rev p))"
    by (simp add: path_split_def Let_def)
  moreover have "length (takeWhile ?P (rev p)) + length (dropWhile ?P (rev p)) = length p"
  proof -
    have "length (takeWhile ?P (rev p)) + length (dropWhile ?P (rev p))
        = length (takeWhile ?P (rev p) @ dropWhile ?P (rev p))"
      by (simp only: length_append)
    also have "\<dots> = length (rev p)"
      by (simp only: takeWhile_dropWhile_id)
    finally show ?thesis by simp
  qed
  ultimately show ?thesis by linarith
qed

lemma makedirs_split_shorter:
  assumes "snd (makedirs_split name) \<noteq> []"
  shows "length (fst (makedirs_split name)) < length name"
proof (cases "snd (path_split name) = []")
  case True
  with assms have "snd (path_split (fst (path_split name))) \<noteq> []"
    by (simp add: makedirs_split_def Let_def)
  then have "0 < length (snd (path_split (fst (path_split name))))"
    by simp
  with path_split_length [of "fst (path_split name)"] path_split_length [of name]
  have "length (fst (path_split (fst (path_split name)))) < length name"
    by linarith
  with True show ?thesis by (simp add: makedirs_split_def Let_def)
next
  case False
  then have "0 < length (snd (path_split name))"
    by simp
  with path_split_length [of name] have "length (fst (path_split name)) < length name"
    by linarith
  with False show ?thesis by (simp add: makedirs_split_def Let_def)
qed

definition mkdir_step :: "filesystem \<Rightarrow> path \<Rightarrow> string \<Rightarrow> os_error option \<times> filesystem" where
  "mkdir_step fs wd name =
     (case os_mkdir fs wd name of Inl err \<Rightarrow> (Some err, fs) | Inr fs' \<Rightarrow> (None, fs'))"

function os_makedirs :: "filesystem \<Rightarrow> path \<Rightarrow> string \<Rightarrow> os_error option \<times> filesystem" where
  "os_makedirs fs wd name =
     (if fst (makedirs_split name) \<noteq> [] \<and> snd (makedirs_split name) \<noteq> []
         \<and> \<not> path_exists fs wd (fst (makedirs_split name))
      then (case os_makedirs fs wd (fst (makedirs_split name)) of
              (Some err, fs1) \<Rightarrow>
                if err = EEXIST
                then (if snd (makedirs_split name) = ''.'' then (None, fs1)
                      else mkdir_step fs1 wd name)
                else (Some err, fs1)
            | (None, fs1) \<Rightarrow>
                if snd (makedirs_split name) = ''.'' then (None, fs1)
                else mkdir_step fs1 wd name)
      else mkdir_step fs wd name)"
  by pat_completeness auto
termination
  by (relation "measure (\<lambda>(fs, wd, name). length name)")
     (auto simp: makedirs_split_shorter)

subsection \<open>The process environment, HTTP and the standard output\<close>

text \<open>
  \<open>requests.get(url)\<close> either raises a \<open>requests.RequestException\<close> (no connection, an
  invalid URL, too many redirects; the string is what \<open>str(e)\<close> gives) or returns a
  response. The server is a parameter: it decides the outcome for every URL.
\<close>

record response =
  status_code :: int
  reason :: string
  url :: string
  content :: bytes

datatype http_result = Raises string | Response response

record env =
  home_dir :: string    \<comment> \<open>\<open>os.path.expanduser("~")\<close>\<close>
  cwd :: path    \<comment> \<open>the working directory of the process\<close>
  server :: "string \<Rightarrow> http_result"

text \<open>
  The exceptions of the program: \<open>requests.RequestException\<close> with its message, and the
  errors of the file system (\<open>FileNotFoundError\<close>, \<open>PermissionError\<close>,
  \<open>shutil.SameFileError\<close> and the like), which are \<open>OSError\<close>s but no
  \<open>RequestException\<close>s.
\<close>

datatype exn = RequestException string | OSError os_error

record world =
  files :: filesystem
  printed :: "string list"    \<comment> \<open>the standard output, one element for each \<open>print\<close>\<close>

definition py_print :: "string \<Rightarrow> world \<Rightarrow> world" where
  "py_print s w = w\<lparr>printed := printed w @ [s]\<rparr>"

text \<open>The working directory written as an absolute path string.\<close>

definition cwd_str :: "env \<Rightarrow> string" where
  "cwd_str e = (if cwd e = [] then ''/'' else concat (map (\<lambda>c. CHR ''/'' # c) (cwd e)))"

text \<open>
  \<open>os.getcwd()\<close>: the absolute path string of the working directory. It raises
  \<open>FileNotFoundError\<close> when that directory is no longer a directory of the file system
  (it was removed while the process ran in it).
\<close>

definition getcwd :: "filesystem \<Rightarrow> env \<Rightarrow> os_error + string" where
  "getcwd fs e = (if path_isdir fs (cwd e) (cwd_str e) then Inr (cwd_str e) else Inl ENOENT)"

text \<open>The decimal digits of an integer, as an f-string prints it.\<close>

fun digits_of :: "nat \<Rightarrow> string" where
  "digits_of n =
     (if n < 10 then [''0123456789'' ! n]
      else digits_of (n div 10) @ [''0123456789'' ! (n mod 10)])"

definition str_int :: "int \<Rightarrow> string" where
  "str_int i = (if i < 0 then ''-'' @ digits_of (nat (- i)) else digits_of (nat i))"

text \<open>
  \<open>Response.raise_for_status()\<close>:
  \<^verbatim>\<open>
  if 400 <= self.status_code < 500:
      http_error_msg = f"{self.status_code} Client Error: {reason} for url: {self.url}"
  elif 500 <= self.status_code < 600:
      http_error_msg = f"{self.status_code} Server Error: {reason} for url: {self.url}"
  if http_error_msg:
      raise HTTPError(http_error_msg, response=self)
  \<close>
\<close>

definition raise_for_status :: "response \<Rightarrow> exn option" where
  "raise_for_status r =
     (if 400 \<le> status_code r \<and> status_code r < 500
      then Some (RequestException
             (str_int (status_code r) @ '' Client Error: '' @ reason r @ '' for url: '' @ url r))
      else if 500 \<le> status_code r \<and> status_code r < 600
      then Some (RequestException
             (str_int (status_code r) @ '' Server Error: '' @ reason r @ '' for url: '' @ url r))
      else None)"

subsection \<open>The program\<close>

text \<open>Lines 12 to 14: the module-level paths.\<close>

definition nula_dir :: "env \<Rightarrow> string" where
  "nula_dir e = path_join (home_dir e) ''.nula''"

definition lib_dir :: "env \<Rightarrow> string" where
  "lib_dir e = path_join (nula_dir e) ''lib''"

text \<open>
  Lines 16 to 19, run before any command:
  \<^verbatim>\<open>
  if not os.path.exists(nula_dir):
      os.makedirs(nula_dir)
  if not os.path.exists(lib_dir):
      os.makedirs(lib_dir)
  \<close>
\<close>

definition ensure_dir :: "env \<Rightarrow> string \<Rightarrow> world \<Rightarrow> exn option \<times> world" where
  "ensure_dir e d w =
     (if \<not> path_exists (files w) (cwd e) d
      then (case os_makedirs (files w) (cwd e) d of
              (r, fs') \<Rightarrow> (map_option OSError r, w\<lparr>files := fs'\<rparr>))
      else (None, w))"

definition init_dirs :: "env \<Rightarrow> world \<Rightarrow> exn option \<times> world" where
  "init_dirs e w =
     (case ensure_dir e (nula_dir e) w of
        (Some ex, w1) \<Rightarrow> (Some ex, w1)
      | (None, w1) \<Rightarrow> ensure_dir e (lib_dir e) w1)"

text \<open>The URL and the cache path of a package, as \<open>install_pkg\<close> builds them.\<close>

definition pkg_url :: "string \<Rightarrow> string" where
  "pkg_url pkg = ''https://hypothetical-nula-repo.com/libs/'' @ pkg @ ''.nula''"

definition lib_path :: "env \<Rightarrow> string \<Rightarrow> string" where
  "lib_path e pkg = path_join (lib_dir e) (pkg @ ''.nula'')"

text \<open>The path string of the project's library directory, \<open><cwd>/lib\<close>.\<close>

definition project_lib :: "env \<Rightarrow> string" where
  "project_lib e = path_join (cwd_str e) ''lib''"

text \<open>
  Lines 32 to 37, the copy into the project:
  \<^verbatim>\<open>
  current_dir = os.getcwd()
  project_lib = os.path.join(current_dir, "lib")
  if os.path.exists(project_lib):
      shutil.copy(lib_path, project_lib)
      print(f"Copied to project lib")
  \<close>
\<close>

definition project_sync :: "env \<Rightarrow> string \<Rightarrow> world \<Rightarrow> exn option \<times> world" where
  "project_sync e pkg w =
     (case getcwd (files w) e of
        Inl err \<Rightarrow> (Some (OSError err), w)
      | Inr current_dir \<Rightarrow>
          (let plib = path_join current_dir ''lib''
           in if path_exists (files w) (cwd e) plib
              then (case shutil_copy (files w) (cwd e) (lib_path e pkg) plib of
                      Inl err \<Rightarrow> (Some (OSError err), w)
                    | Inr fs' \<Rightarrow> (None, py_print ''Copied to project lib'' (w\<lparr>files := fs'\<rparr>)))
              else (None, w)))"

text \<open>
  Lines 25 to 37, the body of the \<open>try\<close>: the result is the exception that leaves the
  block, if any, and the world at that point.
\<close>

definition install_body :: "env \<Rightarrow> string \<Rightarrow> world \<Rightarrow> exn option \<times> world" where
  "install_body e pkg w =
     (case server e (pkg_url pkg) of
        Raises msg \<Rightarrow> (Some (RequestException msg), w)
      | Response r \<Rightarrow>
          (case raise_for_status r of
             Some ex \<Rightarrow> (Some ex, w)
           | None \<Rightarrow>
               (case open_wb (files w) (cwd e) (lib_path e pkg) of
                  Inl err \<Rightarrow> (Some (OSError err), w)
                | Inr (fs1, f) \<Rightarrow>
                    project_sync e pkg
                      (py_print (''Installed '' @ pkg @ '' from '' @ pkg_url pkg)
                         (w\<lparr>files := file_write fs1 f (content r)\<rparr>)))))"

text \<open>
  \<open>install_pkg\<close>: the handler \<open>except requests.RequestException as e\<close> catches the
  request's exceptions and prints them; any other exception leaves the function.
\<close>

definition install_pkg :: "env \<Rightarrow> string \<Rightarrow> world \<Rightarrow> exn option \<times> world" where
  "install_pkg e pkg w =
     (case install_body e pkg w of
        (Some (RequestException msg), w') \<Rightarrow>
          (None, py_print (''Error installing '' @ pkg @ '': '' @ msg) w')
      | r \<Rightarrow> r)"

text \<open>\<open>list_pkgs\<close>, lines 41 to 48.\<close>

definition list_pkgs :: "env \<Rightarrow> world \<Rightarrow> exn option \<times> world" where
  "list_pkgs e w =
     (case os_listdir (files w) (cwd e) (lib_dir e) of
        Inl err \<Rightarrow> (Some (OSError err), w)
      | Inr pkgs \<Rightarrow>
          if pkgs \<noteq> []
          then (None, fold (\<lambda>p. py_print (''- '' @ p)) pkgs (py_print ''Installed packages:'' w))
          else (None, py_print ''No packages installed.'' w))"

text \<open>
  How the process ends: \<open>sys.exit(n)\<close> or the end of the script (status 0), or an
  exception nobody caught, for which the interpreter prints a traceback on the standard
  error and exits with status 1.
\<close>

datatype ending = Exit int | Traceback exn

fun exit_status :: "ending \<Rightarrow> int" where
  "exit_status (Exit n) = n"
| "exit_status (Traceback _) = 1"

definition finish :: "exn option \<times> world \<Rightarrow> ending \<times> world" where
  "finish r = (case r of (None, w) \<Rightarrow> (Exit 0, w) | (Some ex, w) \<Rightarrow> (Traceback ex, w))"

text \<open>The dispatcher, lines 50 to 64; \<open>argv\<close> is \<open>sys.argv\<close>.\<close>

definition dispatcher :: "env \<Rightarrow> string list \<Rightarrow> world \<Rightarrow> ending \<times> world" where
  "dispatcher e argv w =
     (if length argv < 2
      then (Exit 1, py_print ''Usage: nula-packages [install <pkg> | list]'' w)
      else let command = argv ! 1 in
        if command = ''install''
        then (if length argv < 3
              then (Exit 1, py_print ''Usage: nula-packages install <pkg>'' w)
              else finish (install_pkg e (argv ! 2) w))
        else if command = ''list'' then finish (list_pkgs e w)
        else (Exit 1, py_print (''Unknown command: '' @ command) w))"

text \<open>The whole script.\<close>

definition main :: "env \<Rightarrow> string list \<Rightarrow> world \<Rightarrow> ending \<times> world" where
  "main e argv w =
     (case init_dirs e w of
        (Some ex, w') \<Rightarrow> (Traceback ex, w')
      | (None, w') \<Rightarrow> dispatcher e argv w')"

subsection \<open>An example machine\<close>

text \<open>
  A small file system with two cached packages and a project directory, and a server that
  knows a few package names. The examples below are evaluated on them.
\<close>

definition demo_files :: filesystem where
  "demo_files =
     [([], Dir True), ([''home''], Dir True), ([''home'', ''u''], Dir True),
      ([''home'', ''u'', ''.nula''], Dir True),
      ([''home'', ''u'', ''.nula'', ''lib''], Dir True),
      ([''home'', ''u'', ''.nula'', ''lib'', ''math.nula''], File [1, 2] True),
      ([''home'', ''u'', ''.nula'', ''lib'', ''io.nula''], File [3] True),
      ([''home'', ''u'', ''proj''], Dir True)]"

definition demo_server :: "string \<Rightarrow> http_result" where
  "demo_server u =
     (if u = ''https://hypothetical-nula-repo.com/libs/math.nula''
      then Response \<lparr>status_code = 200, reason = ''OK'', url = u, content = [4, 5, 6]\<rparr>
      else if u = ''https://hypothetical-nula-repo.com/libs/cached.nula''
      then Response \<lparr>status_code = 304, reason = ''Not Modified'', url = u, content = []\<rparr>
      else if u = ''https://hypothetical-nula-repo.com/libs/../evil.nula''
      then Response \<lparr>status_code = 200, reason = ''OK'', url = u, content = [7]\<rparr>
      else if u = ''https://hypothetical-nula-repo.com/libs/offline.nula''
      then Raises ''connection refused''
      else Response \<lparr>status_code = 404, reason = ''Not Found'', url = u, content = [9]\<rparr>)"

definition demo_env :: env where
  "demo_env = \<lparr>home_dir = ''/home/u'', cwd = [''home'', ''u'', ''proj''], server = demo_server\<rparr>"

definition demo_world :: world where
  "demo_world = \<lparr>files = demo_files, printed = []\<rparr>"

text \<open>
  Variants of the project: with a writable \<open>lib\<close> directory, empty or holding an older
  copy of a package, with a \<open>lib\<close> directory that the process may not write, and with a
  regular file named \<open>lib\<close>.
\<close>

definition demo_project :: world where
  "demo_project =
     \<lparr>files = demo_files @ [([''home'', ''u'', ''proj'', ''lib''], Dir True)], printed = []\<rparr>"

definition demo_stale_project :: world where
  "demo_stale_project =
     \<lparr>files = demo_files @ [([''home'', ''u'', ''proj'', ''lib''], Dir True),
                             ([''home'', ''u'', ''proj'', ''lib'', ''math.nula''], File [0] True)],
      printed = []\<rparr>"

definition demo_readonly_project :: world where
  "demo_readonly_project =
     \<lparr>files = demo_files @ [([''home'', ''u'', ''proj'', ''lib''], Dir False)], printed = []\<rparr>"

definition demo_lib_file :: world where
  "demo_lib_file =
     \<lparr>files = demo_files @ [([''home'', ''u'', ''proj'', ''lib''], File [8, 8] True)],
      printed = []\<rparr>"

section \<open>Properties\<close>

subsection \<open>Auxiliary facts\<close>

subsubsection \<open>Printing and listing\<close>

lemma fold_py_print:
  "fold (\<lambda>p. py_print (f p)) xs w = w\<lparr>printed := printed w @ map f xs\<rparr>"
  by (induction xs arbitrary: w) (simp_all add: py_print_def)

lemma set_children: "set (children fs d) = {n. d @ [n] \<in> fst ` set fs}"
proof (intro set_eqI iffI)
  fix n assume "n \<in> set (children fs d)"
  then obtain q where q: "q \<in> set (map fst fs)" "q \<noteq> []" "butlast q = d" "n = last q"
    unfolding children_def by auto
  from q(2) have "butlast q @ [last q] = q"
    by (rule append_butlast_last_id)
  with q(3,4) have "d @ [n] = q"
    by simp
  with q(1) show "n \<in> {n. d @ [n] \<in> fst ` set fs}"
    by simp
next
  fix n assume "n \<in> {n. d @ [n] \<in> fst ` set fs}"
  then have "d @ [n] \<in> set (filter (\<lambda>q. q \<noteq> [] \<and> butlast q = d) (map fst fs))"
    by simp
  then have "last (d @ [n]) \<in> set (children fs d)"
    unfolding children_def by (simp only: set_map) (rule imageI)
  then show "n \<in> set (children fs d)"
    by simp
qed

subsubsection \<open>Resolution looks at directories only\<close>

text \<open>
  Two file systems with the same directories resolve every path string alike; writing a
  regular file where no directory stood keeps the directories.
\<close>

lemma walk_same_dirs:
  assumes "\<And>x. is_dir fs' x = is_dir fs x"
  shows "(walk fs' d cs = Inr p) = (walk fs d cs = Inr p)"
proof (induction cs arbitrary: d)
  case Nil
  show ?case by simp
next
  case (Cons c cs)
  show ?case
  proof (cases "is_dir fs d")
    case True
    with assms [of d] have "is_dir fs' d" by simp
    with True Cons.IH show ?thesis
      by (auto simp: is_dir_def split: option.splits node.splits)
  next
    case False
    with assms [of d] have "\<not> is_dir fs' d" by simp
    with False show ?thesis
      by (auto simp: is_dir_def split: option.splits node.splits)
  qed
qed

lemma resolve_same_dirs:
  assumes "\<And>x. is_dir fs' x = is_dir fs x"
  shows "(resolve fs' wd s = Inr p) = (resolve fs wd s = Inr p)"
  using walk_same_dirs [of fs' fs, OF assms] by (simp add: resolve_def)

lemma is_dir_update_file:
  assumes "\<not> is_dir fs k"
  shows "is_dir (AList.update k (File data w) fs) x = is_dir fs x"
  using assms by (simp add: is_dir_def update_conv')

lemma path_isdir_iff:
  "path_isdir fs wd s = (\<exists>p. resolve fs wd s = Inr p \<and> is_dir fs p)"
  by (auto simp: path_isdir_def is_dir_def split: sum.splits option.splits node.splits)

lemma path_exists_iff:
  "path_exists fs wd s = (\<exists>p. resolve fs wd s = Inr p \<and> map_of fs p \<noteq> None)"
  by (auto simp: path_exists_def split: sum.splits)

lemma path_isdir_same_dirs:
  assumes "\<And>x. is_dir fs' x = is_dir fs x"
  shows "path_isdir fs' wd s = path_isdir fs wd s"
  by (simp add: path_isdir_iff resolve_same_dirs [of fs' fs, OF assms] assms)

subsubsection \<open>What the file operations do\<close>

lemma open_wb_effect:
  assumes "open_wb fs wd s = Inr (fs1, f)"
  shows "resolve fs wd s = Inr f \<and> \<not> is_dir fs f
         \<and> file_write fs1 f data = AList.update f (File data True) fs"
  using assms
  by (auto simp: open_wb_def file_write_def is_dir_def update_conv'
           split: sum.splits option.splits node.splits if_splits)

lemma shutil_copy_effect:
  assumes "shutil_copy fs wd src dst = Inr fs2"
  shows "\<exists>data w q. read_rb fs wd src = Inr (data, w)
           \<and> resolve fs wd (copy_dst fs wd src dst) = Inr q
           \<and> \<not> samefile fs wd src (copy_dst fs wd src dst)
           \<and> \<not> is_dir fs q
           \<and> fs2 = AList.update q (File data w) fs"
proof -
  from assms have ns: "\<not> samefile fs wd src (copy_dst fs wd src dst)"
    by (auto simp: shutil_copy_def Let_def split: if_splits)
  with assms obtain data w where rd: "read_rb fs wd src = Inr (data, w)"
    by (auto simp: shutil_copy_def Let_def split: sum.splits)
  with assms ns obtain fs' q where op: "open_wb fs wd (copy_dst fs wd src dst) = Inr (fs', q)"
    and fs2: "fs2 = AList.update q (File data w) fs'"
    by (auto simp: shutil_copy_def Let_def split: sum.splits)
  from open_wb_effect [OF op, of "[]"] have r: "resolve fs wd (copy_dst fs wd src dst) = Inr q"
    and nd: "\<not> is_dir fs q" by simp_all
  from op r have "fs' = AList.update q (File [] True) fs"
    by (auto simp: open_wb_def split: option.splits node.splits if_splits)
  with fs2 have "fs2 = AList.update q (File data w) fs"
    by simp
  with rd r ns nd show ?thesis by blast
qed

subsubsection \<open>The success path of \<open>install_pkg\<close>\<close>

lemma project_sync_alt:
  "project_sync e pkg w =
     (if path_isdir (files w) (cwd e) (cwd_str e)
      then (if path_exists (files w) (cwd e) (project_lib e)
            then (case shutil_copy (files w) (cwd e) (lib_path e pkg) (project_lib e) of
                    Inl err \<Rightarrow> (Some (OSError err), w)
                  | Inr fs' \<Rightarrow> (None, py_print ''Copied to project lib'' (w\<lparr>files := fs'\<rparr>)))
            else (None, w))
      else (Some (OSError ENOENT), w))"
  by (simp add: project_sync_def getcwd_def project_lib_def Let_def)

lemma project_sync_no_request_exception:
  "fst (project_sync e p w) \<noteq> Some (RequestException msg)"
  by (simp add: project_sync_alt split: sum.splits)

lemma install_pkg_fetched:
  assumes "server e (pkg_url p) = Response r" and "raise_for_status r = None"
  shows "install_pkg e p w =
           (case open_wb (files w) (cwd e) (lib_path e p) of
              Inl err \<Rightarrow> (Some (OSError err), w)
            | Inr (fs1, f) \<Rightarrow>
                project_sync e p
                  (py_print (''Installed '' @ p @ '' from '' @ pkg_url p)
                     (w\<lparr>files := file_write fs1 f (content r)\<rparr>)))"
proof (cases "open_wb (files w) (cwd e) (lib_path e p)")
  case (Inl err)
  with assms show ?thesis
    by (simp add: install_pkg_def install_body_def)
next
  case (Inr a)
  obtain fs1 f where a: "a = (fs1, f)" by (cases a)
  let ?w1 = "py_print (''Installed '' @ p @ '' from '' @ pkg_url p)
               (w\<lparr>files := file_write fs1 f (content r)\<rparr>)"
  have body: "install_body e p w = project_sync e p ?w1"
    using assms Inr a by (simp add: install_body_def)
  obtain x w' where ps: "project_sync e p ?w1 = (x, w')"
    by (cases "project_sync e p ?w1")
  have "install_pkg e p w = (x, w')"
  proof (cases x)
    case None
    with body ps show ?thesis by (simp add: install_pkg_def)
  next
    case (Some ex)
    with project_sync_no_request_exception [of e p ?w1] ps
    obtain err where "ex = OSError err" by (cases ex) auto
    with Some body ps show ?thesis by (simp add: install_pkg_def)
  qed
  with ps Inr a show ?thesis by simp
qed


lemma read_rb_file:
  assumes "resolve fs wd s = Inr f" and "map_of fs f = Some (File data w)"
  shows "read_rb fs wd s = Inr (data, w)"
  using assms by (simp add: read_rb_def)

lemma install_pkg_effect:
  assumes srv: "server e (pkg_url p) = Response r"
    and ok: "raise_for_status r = None"
    and run: "install_pkg e p w = (None, w')"
  shows "\<exists>f. resolve (files w) (cwd e) (lib_path e p) = Inr f \<and> \<not> is_dir (files w) f \<and>
           (let F1 = AList.update f (File (content r) True) (files w);
                msg = ''Installed '' @ p @ '' from '' @ pkg_url p
            in (\<not> path_exists F1 (cwd e) (project_lib e)
                  \<and> w' = w\<lparr>files := F1, printed := printed w @ [msg]\<rparr>)
               \<or> (path_exists F1 (cwd e) (project_lib e)
                  \<and> (\<exists>q. resolve F1 (cwd e) (copy_dst F1 (cwd e) (lib_path e p) (project_lib e)) = Inr q
                        \<and> q \<noteq> f \<and> \<not> is_dir F1 q
                        \<and> w' = w\<lparr>files := AList.update q (File (content r) True) F1,
                                  printed := printed w @ [msg, ''Copied to project lib'']\<rparr>)))"
proof -
  let ?msg = "''Installed '' @ p @ '' from '' @ pkg_url p"
  from install_pkg_fetched [OF srv ok, of w] run
  obtain fs1 f where op: "open_wb (files w) (cwd e) (lib_path e p) = Inr (fs1, f)"
    by (auto split: sum.splits)
  let ?F1 = "AList.update f (File (content r) True) (files w)"
  let ?w1 = "py_print ?msg (w\<lparr>files := ?F1\<rparr>)"
  from open_wb_effect [OF op, of "content r"]
  have res: "resolve (files w) (cwd e) (lib_path e p) = Inr f"
    and nd: "\<not> is_dir (files w) f"
    and fw: "file_write fs1 f (content r) = ?F1" by simp_all
  from install_pkg_fetched [OF srv ok, of w] run op fw
  have ps: "project_sync e p ?w1 = (None, w')" by simp
  have files1: "files ?w1 = ?F1" and printed1: "printed ?w1 = printed w @ [?msg]"
    by (simp_all add: py_print_def)
  have res1: "resolve ?F1 (cwd e) (lib_path e p) = Inr f"
    using res resolve_same_dirs [of ?F1 "files w", OF is_dir_update_file [OF nd]] by simp
  have at1: "map_of ?F1 f = Some (File (content r) True)"
    by (simp add: update_conv')
  show ?thesis
  proof (cases "path_exists ?F1 (cwd e) (project_lib e)")
    case False
    with ps files1 have "w' = ?w1"
      by (simp add: project_sync_alt split: if_splits)
    then have "w' = w\<lparr>files := ?F1, printed := printed w @ [?msg]\<rparr>"
      by (simp add: py_print_def)
    with False res nd show ?thesis
      by (simp add: Let_def)
  next
    case True
    with ps files1 obtain fs2
      where cp: "shutil_copy ?F1 (cwd e) (lib_path e p) (project_lib e) = Inr fs2"
        and w': "w' = py_print ''Copied to project lib'' (?w1\<lparr>files := fs2\<rparr>)"
      by (auto simp: project_sync_alt split: sum.splits if_splits)
    let ?dst = "copy_dst ?F1 (cwd e) (lib_path e p) (project_lib e)"
    from shutil_copy_effect [OF cp] obtain data wr q
      where rd: "read_rb ?F1 (cwd e) (lib_path e p) = Inr (data, wr)"
        and rq: "resolve ?F1 (cwd e) ?dst = Inr q"
        and ns: "\<not> samefile ?F1 (cwd e) (lib_path e p) ?dst"
        and ndq: "\<not> is_dir ?F1 q"
        and fs2: "fs2 = AList.update q (File data wr) ?F1"
      by blast
    from rd read_rb_file [OF res1 at1] have "data = content r" "wr = True"
      by simp_all
    moreover from ns res1 rq at1 have "q \<noteq> f"
      by (auto simp: samefile_def)
    moreover from w' have "w' = w\<lparr>files := fs2, printed := printed w @ [?msg, ''Copied to project lib'']\<rparr>"
      by (simp add: py_print_def)
    ultimately show ?thesis
      using True res nd rq ndq fs2 by (simp add: Let_def)
  qed
qed


subsubsection \<open>Path strings and their last component\<close>

lemma split_sep_nonempty: "split_sep s \<noteq> []"
  by (induction s) (auto split: list.splits)

lemma split_sep_append:
  "split_sep (a @ CHR ''/'' # b) = split_sep a @ split_sep b"
proof (induction a)
  case Nil
  show ?case by simp
next
  case (Cons c a)
  obtain x xs where "split_sep a = x # xs"
    using split_sep_nonempty [of a] by (cases "split_sep a") auto
  with Cons show ?case by simp
qed

lemma split_sep_plain: "CHR ''/'' \<notin> set b \<Longrightarrow> split_sep b = [b]"
  by (induction b) auto

lemma components_append:
  "components (a @ CHR ''/'' # b) = components a @ components b"
  by (simp add: components_def split_sep_append)

lemma components_plain:
  "CHR ''/'' \<notin> set b \<Longrightarrow> b \<noteq> [] \<Longrightarrow> b \<noteq> ''.'' \<Longrightarrow> components b = [b]"
  by (simp add: components_def split_sep_plain)

lemma walk_append:
  "walk fs d (cs @ cs') = (case walk fs d cs of Inl err \<Rightarrow> Inl err | Inr d' \<Rightarrow> walk fs d' cs')"
  by (induction cs arbitrary: d) (auto split: option.splits node.splits)

lemma walk_single:
  assumes "walk fs d [b] = Inr f" and "b \<noteq> ''..''"
  shows "is_dir fs d \<and> f = d @ [b]"
  using assms by (auto simp: is_dir_def split: option.splits node.splits)

lemma resolve_last:
  assumes "resolve fs wd (a @ CHR ''/'' # b) = Inr f"
    and "CHR ''/'' \<notin> set b" and "b \<noteq> []" and "b \<noteq> ''.''" and "b \<noteq> ''..''"
  shows "\<exists>d. is_dir fs d \<and> f = d @ [b]"
proof -
  let ?d0 = "if hd (a @ CHR ''/'' # b) = CHR ''/'' then [] else wd"
  from assms have "walk fs ?d0 (components a @ [b]) = Inr f"
    by (simp add: resolve_def components_append components_plain)
  then obtain d where "walk fs d [b] = Inr f"
    unfolding walk_append by (auto split: sum.splits)
  from walk_single [OF this assms(5)] show ?thesis by blast
qed

lemma resolve_child:
  assumes "resolve fs wd (a @ CHR ''/'' # b) = Inr f" and "a \<noteq> []"
    and "CHR ''/'' \<notin> set b" and "b \<noteq> []" and "b \<noteq> ''.''" and "b \<noteq> ''..''"
  shows "\<exists>d. resolve fs wd a = Inr d \<and> is_dir fs d \<and> f = d @ [b]"
proof -
  let ?d0 = "if hd a = CHR ''/'' then [] else wd"
  from assms have "walk fs ?d0 (components a @ [b]) = Inr f"
    by (simp add: resolve_def components_append components_plain)
  then obtain d where d: "walk fs ?d0 (components a) = Inr d" and "walk fs d [b] = Inr f"
    unfolding walk_append by (auto split: sum.splits)
  from walk_single [OF this(2) assms(6)] d assms(2) show ?thesis
    by (simp add: resolve_def)
qed

lemma basename_decomp:
  assumes "CHR ''/'' \<in> set s"
  shows "\<exists>a. s = a @ CHR ''/'' # path_basename s" and "CHR ''/'' \<notin> set (path_basename s)"
proof -
  let ?P = "\<lambda>c. c \<noteq> CHR ''/''"
  from assms have "dropWhile ?P (rev s) \<noteq> []"
    by (simp add: dropWhile_eq_Nil_conv) 
  then obtain x xs where dw: "dropWhile ?P (rev s) = x # xs"
    by (cases "dropWhile ?P (rev s)") auto
  with hd_dropWhile [of ?P "rev s"] have x: "x = CHR ''/''"
    by simp
  have "rev s = takeWhile ?P (rev s) @ dropWhile ?P (rev s)"
    by simp
  then have "rev (rev s) = rev (takeWhile ?P (rev s) @ x # xs)"
    using dw by simp
  then have "s = rev xs @ CHR ''/'' # path_basename s"
    using x by (simp add: path_basename_def)
  then show "\<exists>a. s = a @ CHR ''/'' # path_basename s" ..
  show "CHR ''/'' \<notin> set (path_basename s)"
    using set_takeWhileD [of "CHR ''/''" ?P "rev s"] by (auto simp: path_basename_def)
qed

lemma basename_nula: "path_basename (t @ ''.nula'') = path_basename t @ ''.nula''"
  by (simp add: path_basename_def)

subsubsection \<open>The paths the program builds\<close>

text \<open>
  The cache path of a package ends in a component with the extension \<open>.nula\<close>, the
  project path in the component \<open>lib\<close>, so the two never name the same node.
\<close>

lemma nula_dir_shape: "nula_dir e \<noteq> [] \<and> last (nula_dir e) = CHR ''a''"
  by (simp add: nula_dir_def path_join_def)

lemma lib_dir_eq: "lib_dir e = nula_dir e @ ''/lib''"
  using nula_dir_shape [of e] by (simp add: lib_dir_def path_join_def)

lemma lib_path_plain:
  assumes "CHR ''/'' \<notin> set p"
  shows "lib_path e p = lib_dir e @ CHR ''/'' # (p @ ''.nula'')"
proof -
  from assms have "p @ ''.nula'' \<noteq> [] \<and> hd (p @ ''.nula'') \<noteq> CHR ''/''"
    by (cases p) auto
  then show ?thesis
    by (simp add: lib_path_def path_join_def lib_dir_eq)
qed

lemma lib_path_nula: "\<exists>t. lib_path e p = t @ ''.nula'' \<and> CHR ''/'' \<in> set t"
proof (cases "p \<noteq> [] \<and> hd p = CHR ''/''")
  case True
  then have "lib_path e p = p @ ''.nula''" "CHR ''/'' \<in> set p"
    by (cases p; simp add: lib_path_def path_join_def)+
  then show ?thesis by blast
next
  case False
  then have "lib_path e p = (lib_dir e @ ''/'' @ p) @ ''.nula''"
    by (cases p) (auto simp: lib_path_def path_join_def lib_dir_eq)
  moreover have "CHR ''/'' \<in> set (lib_dir e @ ''/'' @ p)" by simp
  ultimately show ?thesis by blast
qed

lemma lib_path_last:
  assumes "resolve fs wd (lib_path e p) = Inr f"
  shows "\<exists>d t. f = d @ [t @ ''.nula'']"
proof -
  from lib_path_nula [of e p] obtain t where t: "lib_path e p = t @ ''.nula''"
    and sep: "CHR ''/'' \<in> set t" by blast
  let ?b = "path_basename (lib_path e p)"
  from sep t have "CHR ''/'' \<in> set (lib_path e p)" by simp
  from basename_decomp [OF this] obtain a where a: "lib_path e p = a @ CHR ''/'' # ?b"
    and ns: "CHR ''/'' \<notin> set ?b" by blast
  have b: "?b = path_basename t @ ''.nula''"
    by (simp add: t basename_nula)
  then have "?b \<noteq> []" "?b \<noteq> ''.''" "?b \<noteq> ''..''"
    by auto
  with resolve_last [of fs wd a ?b f] assms a ns obtain d where "f = d @ [?b]"
    by auto
  with b show ?thesis by blast
qed

lemma cwd_str_nonempty: "cwd_str e \<noteq> []"
  by (cases "cwd e") (simp_all add: cwd_str_def)

lemma project_lib_shape: "\<exists>a. project_lib e = a @ CHR ''/'' # ''lib''"
proof (cases "last (cwd_str e) = CHR ''/''")
  case True
  with cwd_str_nonempty [of e] have "cwd_str e = butlast (cwd_str e) @ ''/''"
    using append_butlast_last_id [of "cwd_str e"] by simp
  then have "cwd_str e @ ''lib'' = butlast (cwd_str e) @ CHR ''/'' # ''lib''"
    by (metis append.assoc append_Cons append_Nil)
  with True cwd_str_nonempty [of e] show ?thesis
    by (auto simp: project_lib_def path_join_def)
next
  case False
  with cwd_str_nonempty [of e] show ?thesis
    by (auto simp: project_lib_def path_join_def)
qed

lemma project_lib_last:
  assumes "resolve fs wd (project_lib e) = Inr q"
  shows "\<exists>d. q = d @ [''lib'']"
proof -
  from project_lib_shape [of e] obtain a where "project_lib e = a @ CHR ''/'' # ''lib''" ..
  with resolve_last [of fs wd a "''lib''" q] assms show ?thesis
    by auto
qed

lemma project_lib_components:
  "components (project_lib e) = components (cwd_str e) @ [''lib'']
   \<and> hd (project_lib e) = hd (cwd_str e)"
proof (cases "last (cwd_str e) = CHR ''/''")
  case True
  with cwd_str_nonempty [of e] have c: "cwd_str e = butlast (cwd_str e) @ CHR ''/'' # []"
    using append_butlast_last_id [of "cwd_str e"] by simp
  from True cwd_str_nonempty [of e] have pl: "project_lib e = cwd_str e @ ''lib''"
    by (simp add: project_lib_def path_join_def)
  have "cwd_str e @ ''lib'' = butlast (cwd_str e) @ CHR ''/'' # ''lib''"
    using c by (metis append.assoc append_Cons append_Nil)
  with pl have pl': "project_lib e = butlast (cwd_str e) @ CHR ''/'' # ''lib''"
    by (simp only:)
  have "components (butlast (cwd_str e) @ CHR ''/'' # ''lib'')
      = components (butlast (cwd_str e)) @ [''lib'']"
    by (simp add: components_append components_plain)
  with pl' have "components (project_lib e) = components (butlast (cwd_str e)) @ [''lib'']"
    by (simp only:)
  moreover have "components (butlast (cwd_str e) @ CHR ''/'' # [])
      = components (butlast (cwd_str e))"
    by (simp add: components_append) (simp add: components_def)
  with c have "components (cwd_str e) = components (butlast (cwd_str e))"
    by (simp only:)
  moreover from pl cwd_str_nonempty [of e] have "hd (project_lib e) = hd (cwd_str e)"
    by simp
  ultimately show ?thesis by simp
next
  case False
  with cwd_str_nonempty [of e] have pl: "project_lib e = cwd_str e @ CHR ''/'' # ''lib''"
    by (simp add: project_lib_def path_join_def)
  then have "components (project_lib e) = components (cwd_str e) @ [''lib'']"
    by (simp add: components_append components_plain)
  moreover from pl cwd_str_nonempty [of e] have "hd (project_lib e) = hd (cwd_str e)"
    by simp
  ultimately show ?thesis by simp
qed

lemma project_lib_exists_cwd:
  assumes "path_exists fs wd (project_lib e)"
  shows "path_isdir fs wd (cwd_str e)"
proof -
  let ?d0 = "if hd (cwd_str e) = CHR ''/'' then [] else wd"
  from assms obtain q where "resolve fs wd (project_lib e) = Inr q"
    by (auto simp: path_exists_iff)
  then have "walk fs ?d0 (components (cwd_str e) @ [''lib'']) = Inr q"
    using project_lib_components [of e] by (simp add: resolve_def split: if_splits)
  then obtain d where d: "walk fs ?d0 (components (cwd_str e)) = Inr d"
    and "walk fs d [''lib''] = Inr q"
    unfolding walk_append by (auto split: sum.splits)
  from walk_single [OF this(2)] have "is_dir fs d" by simp
  with d cwd_str_nonempty [of e] show ?thesis
    by (auto simp: path_isdir_iff resolve_def)
qed

lemma lib_path_not_project_lib:
  assumes "resolve fs wd (lib_path e p) = Inr f" and "resolve fs' wd' (project_lib e) = Inr q"
  shows "f \<noteq> q"
proof
  assume "f = q"
  moreover from lib_path_last [OF assms(1)] obtain d t where "f = d @ [t @ ''.nula'']" by blast
  moreover from project_lib_last [OF assms(2)] obtain d' where "q = d' @ [''lib'']" ..
  ultimately have "t @ ''.nula'' = ''lib''" by simp
  then have "length (t @ ''.nula'') = length ''lib''" by (rule arg_cong)
  then show False by simp
qed

subsubsection \<open>Outcomes of \<open>install_pkg\<close>\<close>

lemma raise_for_status_None:
  "(raise_for_status r = None) = (\<not> (400 \<le> status_code r \<and> status_code r < 600))"
  by (auto simp: raise_for_status_def)

lemma install_pkg_cached:
  assumes srv: "server e (pkg_url p) = Response r"
    and ok: "raise_for_status r = None"
    and run: "install_pkg e p w = (None, w')"
  shows "\<exists>f. resolve (files w) (cwd e) (lib_path e p) = Inr f
           \<and> resolve (files w') (cwd e) (lib_path e p) = Inr f
           \<and> map_of (files w') f = Some (File (content r) True)
           \<and> (\<forall>x. is_dir (files w') x = is_dir (files w) x)
           \<and> (\<exists>rest. printed w' = printed w @ (''Installed '' @ p @ '' from '' @ pkg_url p) # rest)"
proof -
  from install_pkg_effect [OF srv ok run] obtain f
    where res: "resolve (files w) (cwd e) (lib_path e p) = Inr f"
      and nd: "\<not> is_dir (files w) f"
      and eff: "let F1 = AList.update f (File (content r) True) (files w);
                msg = ''Installed '' @ p @ '' from '' @ pkg_url p
            in (\<not> path_exists F1 (cwd e) (project_lib e)
                  \<and> w' = w\<lparr>files := F1, printed := printed w @ [msg]\<rparr>)
               \<or> (path_exists F1 (cwd e) (project_lib e)
                  \<and> (\<exists>q. resolve F1 (cwd e) (copy_dst F1 (cwd e) (lib_path e p) (project_lib e)) = Inr q
                        \<and> q \<noteq> f \<and> \<not> is_dir F1 q
                        \<and> w' = w\<lparr>files := AList.update q (File (content r) True) F1,
                                  printed := printed w @ [msg, ''Copied to project lib'']\<rparr>))"
    by blast
  let ?F1 = "AList.update f (File (content r) True) (files w)"
  have d1: "\<And>x. is_dir ?F1 x = is_dir (files w) x"
    by (rule is_dir_update_file [OF nd])
  have "map_of (files w') f = Some (File (content r) True)
      \<and> (\<forall>x. is_dir (files w') x = is_dir (files w) x)
      \<and> (\<exists>rest. printed w' = printed w @ (''Installed '' @ p @ '' from '' @ pkg_url p) # rest)"
  proof (cases "path_exists ?F1 (cwd e) (project_lib e)")
    case False
    with eff have "w' = w\<lparr>files := ?F1, printed := printed w @ [''Installed '' @ p @ '' from '' @ pkg_url p]\<rparr>"
      by (simp add: Let_def)
    with d1 show ?thesis by (simp add: update_conv')
  next
    case True
    with eff obtain q where q: "q \<noteq> f" "\<not> is_dir ?F1 q"
      and w': "w' = w\<lparr>files := AList.update q (File (content r) True) ?F1,
                      printed := printed w @ [''Installed '' @ p @ '' from '' @ pkg_url p, ''Copied to project lib'']\<rparr>"
      by (auto simp: Let_def)
    from is_dir_update_file [OF q(2)] d1
    have "\<And>x. is_dir (AList.update q (File (content r) True) ?F1) x = is_dir (files w) x"
      by simp
    with w' q(1) show ?thesis by (simp add: update_conv')
  qed
  moreover from this res have "resolve (files w') (cwd e) (lib_path e p) = Inr f"
    using resolve_same_dirs [of "files w'" "files w"] by simp
  ultimately show ?thesis using res by blast
qed

lemma os_listdir_child:
  assumes "resolve fs wd a = Inr d" and "is_dir fs d" and "map_of fs (d @ [b]) = Some v"
  shows "\<exists>names. os_listdir fs wd a = Inr names \<and> b \<in> set names"
proof -
  from assms(1,2) have "os_listdir fs wd a = Inr (children fs d)"
    by (auto simp: os_listdir_def is_dir_def split: option.splits node.splits)
  moreover from assms(3) have "d @ [b] \<in> fst ` set fs"
    by (metis map_of_SomeD fst_conv image_eqI)
  then have "b \<in> set (children fs d)"
    by (simp add: set_children)
  ultimately show ?thesis by blast
qed

lemma install_pkg_get_raises:
  assumes "server e (pkg_url p) = Raises cause"
  shows "install_pkg e p w = (None, py_print (''Error installing '' @ p @ '': '' @ cause) w)"
  using assms by (simp add: install_pkg_def install_body_def)

lemma install_pkg_error_status:
  assumes "server e (pkg_url p) = Response r"
    and "400 \<le> status_code r" and "status_code r < 600"
  shows "install_pkg e p w =
           (None, py_print (''Error installing '' @ p @ '': '' @ str_int (status_code r)
              @ (if status_code r < 500 then '' Client Error: '' else '' Server Error: '')
              @ reason r @ '' for url: '' @ url r) w)"
  using assms by (simp add: install_pkg_def install_body_def raise_for_status_def)

lemma install_pkg_copy_fails:
  assumes srv: "server e (pkg_url p) = Response r" and ok: "raise_for_status r = None"
    and op: "open_wb (files w) (cwd e) (lib_path e p) = Inr (fs1, f)"
    and ex: "path_exists (file_write fs1 f (content r)) (cwd e) (project_lib e)"
    and cp: "shutil_copy (file_write fs1 f (content r)) (cwd e) (lib_path e p) (project_lib e) = Inl err"
  shows "install_pkg e p w =
           (Some (OSError err),
            w\<lparr>files := file_write fs1 f (content r),
              printed := printed w @ [''Installed '' @ p @ '' from '' @ pkg_url p]\<rparr>)"
  using op ex cp project_lib_exists_cwd [OF ex]
  by (simp add: install_pkg_fetched [OF srv ok] project_sync_alt py_print_def)

lemma install_pkg_copy_succeeds:
  assumes srv: "server e (pkg_url p) = Response r" and ok: "raise_for_status r = None"
    and op: "open_wb (files w) (cwd e) (lib_path e p) = Inr (fs1, f)"
    and ex: "path_exists (file_write fs1 f (content r)) (cwd e) (project_lib e)"
    and cp: "shutil_copy (file_write fs1 f (content r)) (cwd e) (lib_path e p) (project_lib e) = Inr fs2"
  shows "install_pkg e p w =
           (None,
            w\<lparr>files := fs2,
              printed := printed w @ [''Installed '' @ p @ '' from '' @ pkg_url p,
                                      ''Copied to project lib'']\<rparr>)"
  using op ex cp project_lib_exists_cwd [OF ex]
  by (simp add: install_pkg_fetched [OF srv ok] project_sync_alt py_print_def)

lemma path_isdir_exists: "path_isdir fs wd s \<Longrightarrow> path_exists fs wd s"
  by (auto simp: path_isdir_iff path_exists_iff is_dir_def split: option.splits)

lemma project_lib_exists_after_caching:
  assumes res: "resolve fs wd (lib_path e p) = Inr f" and nd: "\<not> is_dir fs f"
  shows "path_exists (AList.update f (File data True) fs) wd (project_lib e)
           = path_exists fs wd (project_lib e)"
proof -
  let ?F1 = "AList.update f (File data True) fs"
  have same: "\<And>q. (resolve ?F1 wd (project_lib e) = Inr q) = (resolve fs wd (project_lib e) = Inr q)"
    by (rule resolve_same_dirs [OF is_dir_update_file [OF nd]])
  have eq: "map_of ?F1 q = map_of fs q" if "resolve fs wd (project_lib e) = Inr q" for q
  proof -
    from lib_path_not_project_lib [OF res that] have "f \<noteq> q" .
    then show ?thesis by (simp add: update_conv')
  qed
  have "(resolve ?F1 wd (project_lib e) = Inr q \<and> map_of ?F1 q \<noteq> None)
      = (resolve fs wd (project_lib e) = Inr q \<and> map_of fs q \<noteq> None)" for q
  proof (cases "resolve fs wd (project_lib e) = Inr q")
    case True
    with same [of q] eq [OF True] show ?thesis by simp
  next
    case False
    with same [of q] show ?thesis by simp
  qed
  then show ?thesis
    by (simp add: path_exists_iff)
qed

subsubsection \<open>Entries of the file system\<close>

lemma update_keys_present:
  assumes "map_of al k = Some v"
  shows "map fst (AList.update k v' al) = map fst al"
proof -
  from assms have "k \<in> fst ` set al"
    by (metis map_of_SomeD fst_conv image_eqI)
  then show ?thesis by (simp add: update_keys)
qed

lemma distinct_children:
  assumes "distinct (map fst fs)"
  shows "distinct (children fs d)"
proof -
  let ?ks = "filter (\<lambda>q. q \<noteq> [] \<and> butlast q = d) (map fst fs)"
  have "inj_on last (set ?ks)"
  proof (rule inj_onI)
    fix x y assume "x \<in> set ?ks" "y \<in> set ?ks" and l: "last x = last y"
    then have ne: "x \<noteq> []" "y \<noteq> []" and b: "butlast x = butlast y"
      by simp_all
    have "butlast x @ [last x] = x"
      using ne(1) by (rule append_butlast_last_id)
    moreover have "butlast y @ [last y] = y"
      using ne(2) by (rule append_butlast_last_id)
    ultimately show "x = y"
      using l b by metis
  qed
  moreover from assms have "distinct ?ks" by simp
  ultimately show ?thesis
    unfolding children_def by (simp add: distinct_map)
qed

lemma once_in_distinct:
  assumes "distinct xs" and "x \<in> set xs"
  shows "length (filter (\<lambda>n. n = x) xs) = 1"
proof -
  from assms(2) have "{n. n = x} \<inter> set xs = {x}" by auto
  with distinct_length_filter [OF assms(1), of "\<lambda>n. n = x"] show ?thesis by simp
qed

lemma install_pkg_keys:
  assumes srv: "server e (pkg_url p) = Response r" and ok: "raise_for_status r = None"
    and run: "install_pkg e p w = (None, w')"
    and dist: "distinct (map fst (files w))"
  shows "distinct (map fst (files w'))"
proof -
  from install_pkg_effect [OF srv ok run] obtain f
    where eff: "let F1 = AList.update f (File (content r) True) (files w);
                msg = ''Installed '' @ p @ '' from '' @ pkg_url p
            in (\<not> path_exists F1 (cwd e) (project_lib e)
                  \<and> w' = w\<lparr>files := F1, printed := printed w @ [msg]\<rparr>)
               \<or> (path_exists F1 (cwd e) (project_lib e)
                  \<and> (\<exists>q. resolve F1 (cwd e) (copy_dst F1 (cwd e) (lib_path e p) (project_lib e)) = Inr q
                        \<and> q \<noteq> f \<and> \<not> is_dir F1 q
                        \<and> w' = w\<lparr>files := AList.update q (File (content r) True) F1,
                                  printed := printed w @ [msg, ''Copied to project lib'']\<rparr>))"
    by blast
  from dist have "distinct (map fst (AList.update f (File (content r) True) (files w)))"
    by (rule distinct_update)
  moreover from this
  have "distinct (map fst (AList.update q (File (content r) True)
                    (AList.update f (File (content r) True) (files w))))" for q
    by (rule distinct_update)
  ultimately show ?thesis
    using eff by (auto simp: Let_def)
qed


lemma install_pkg_cases:
  assumes srv: "server e (pkg_url p) = Response r" and ok: "raise_for_status r = None"
    and run: "install_pkg e p w = (None, w')"
  obtains (cached) c
    where "resolve (files w) (cwd e) (lib_path e p) = Inr c" and "\<not> is_dir (files w) c"
      and "\<not> path_exists (AList.update c (File (content r) True) (files w)) (cwd e) (project_lib e)"
      and "files w' = AList.update c (File (content r) True) (files w)"
      and "printed w' = printed w @ [''Installed '' @ p @ '' from '' @ pkg_url p]"
  | (copied) c q
    where "resolve (files w) (cwd e) (lib_path e p) = Inr c" and "\<not> is_dir (files w) c"
      and "path_exists (AList.update c (File (content r) True) (files w)) (cwd e) (project_lib e)"
      and "resolve (AList.update c (File (content r) True) (files w)) (cwd e)
             (copy_dst (AList.update c (File (content r) True) (files w)) (cwd e)
                (lib_path e p) (project_lib e)) = Inr q"
      and "\<not> is_dir (AList.update c (File (content r) True) (files w)) q"
      and "files w' = AList.update q (File (content r) True)
                        (AList.update c (File (content r) True) (files w))"
      and "printed w' = printed w @ [''Installed '' @ p @ '' from '' @ pkg_url p,
                                     ''Copied to project lib'']"
      and "q \<noteq> c"
proof -
  from install_pkg_effect [OF srv ok run] obtain c
    where res: "resolve (files w) (cwd e) (lib_path e p) = Inr c"
      and nd: "\<not> is_dir (files w) c"
      and eff: "let F1 = AList.update c (File (content r) True) (files w);
                msg = ''Installed '' @ p @ '' from '' @ pkg_url p
            in (\<not> path_exists F1 (cwd e) (project_lib e)
                  \<and> w' = w\<lparr>files := F1, printed := printed w @ [msg]\<rparr>)
               \<or> (path_exists F1 (cwd e) (project_lib e)
                  \<and> (\<exists>q. resolve F1 (cwd e) (copy_dst F1 (cwd e) (lib_path e p) (project_lib e)) = Inr q
                        \<and> q \<noteq> c \<and> \<not> is_dir F1 q
                        \<and> w' = w\<lparr>files := AList.update q (File (content r) True) F1,
                                  printed := printed w @ [msg, ''Copied to project lib'']\<rparr>))"
    by blast
  show thesis
  proof (cases "path_exists (AList.update c (File (content r) True) (files w)) (cwd e) (project_lib e)")
    case False
    with eff have "files w' = AList.update c (File (content r) True) (files w)"
      and "printed w' = printed w @ [''Installed '' @ p @ '' from '' @ pkg_url p]"
      by (auto simp: Let_def)
    with res nd False show thesis by (rule cached)
  next
    case True
    with eff obtain q
      where "resolve (AList.update c (File (content r) True) (files w)) (cwd e)
             (copy_dst (AList.update c (File (content r) True) (files w)) (cwd e)
                (lib_path e p) (project_lib e)) = Inr q"
        and "\<not> is_dir (AList.update c (File (content r) True) (files w)) q"
        and "files w' = AList.update q (File (content r) True)
                        (AList.update c (File (content r) True) (files w))"
        and "printed w' = printed w @ [''Installed '' @ p @ '' from '' @ pkg_url p,
                                     ''Copied to project lib'']"
        and "q \<noteq> c"
      by (auto simp: Let_def)
    with res nd True show thesis by (rule copied)
  qed
qed

lemma update_commute:
  assumes "k \<noteq> k'" and "k \<in> fst ` set al"
  shows "AList.update k v (AList.update k' v' al) = AList.update k' v' (AList.update k v al)"
  using assms by (induction al) auto

lemma one_entry_in_distinct:
  assumes "distinct (map fst al)" and "k \<in> fst ` set al"
  shows "length (filter (\<lambda>kv. fst kv = k) al) = 1"
proof -
  have "length (filter (\<lambda>kv. fst kv = k) al) = length (filter (\<lambda>x. x = k) (map fst al))"
    by (simp add: filter_map comp_def)
  with once_in_distinct [OF assms(1), of k] assms(2) show ?thesis
    by simp
qed

lemma listed_at_most_once:
  assumes "distinct (map fst fs)" and "os_listdir fs wd s = Inr names"
  shows "length (filter (\<lambda>n. n = x) names) \<le> 1"
proof -
  from assms(2) obtain d where "names = children fs d"
    by (auto simp: os_listdir_def split: sum.splits option.splits node.splits)
  with distinct_children [OF assms(1), of d] have dn: "distinct names" by simp
  show ?thesis
  proof (cases "x \<in> set names")
    case True
    from once_in_distinct [OF dn True] show ?thesis by simp
  next
    case False
    then have "filter (\<lambda>n. n = x) names = []"
      by (auto simp: filter_empty_conv)
    then show ?thesis by simp
  qed
qed

lemma path_exists_update_file:
  assumes "path_exists fs wd s" and "\<not> is_dir fs k"
  shows "path_exists (AList.update k (File data True) fs) wd s"
proof -
  from assms(1) obtain x where "resolve fs wd s = Inr x" and "map_of fs x \<noteq> None"
    by (auto simp: path_exists_iff)
  moreover from this(1) have "resolve (AList.update k (File data True) fs) wd s = Inr x"
    by (simp add: resolve_same_dirs [OF is_dir_update_file [OF assms(2)]])
  moreover have "map_of (AList.update k (File data True) fs) x \<noteq> None"
    using \<open>map_of fs x \<noteq> None\<close> by (simp add: update_conv')
  ultimately show ?thesis
    by (auto simp: path_exists_iff)
qed

text \<open>
  The file system after a successful install, in terms of the one before: the cache file
  holds the body, and so does the copy when \<open>./lib\<close> exists; nothing else differs.
\<close>

lemma install_pkg_files:
  assumes srv: "server e (pkg_url p) = Response r" and ok: "raise_for_status r = None"
    and run: "install_pkg e p w = (None, w')"
  obtains (cached) c
    where "resolve (files w) (cwd e) (lib_path e p) = Inr c" and "\<not> is_dir (files w) c"
      and "\<not> path_exists (files w) (cwd e) (project_lib e)"
      and "files w' = AList.update c (File (content r) True) (files w)"
  | (copied) c q
    where "resolve (files w) (cwd e) (lib_path e p) = Inr c" and "\<not> is_dir (files w) c"
      and "path_exists (files w) (cwd e) (project_lib e)"
      and "resolve (files w) (cwd e)
             (copy_dst (files w) (cwd e) (lib_path e p) (project_lib e)) = Inr q"
      and "\<not> is_dir (files w) q" and "q \<noteq> c"
      and "files w' = AList.update q (File (content r) True)
                        (AList.update c (File (content r) True) (files w))"
  using srv ok run
proof (cases rule: install_pkg_cases)
  case c: (cached c)
  from c(3) project_lib_exists_after_caching [OF c(1,2), of "content r"]
  have "\<not> path_exists (files w) (cwd e) (project_lib e)" by simp
  with c(1,2) show ?thesis using c(4) by (rule cached)
next
  case c: (copied c q)
  let ?F1 = "AList.update c (File (content r) True) (files w)"
  have same: "\<And>x. is_dir ?F1 x = is_dir (files w) x"
    by (rule is_dir_update_file [OF c(2)])
  from c(3) project_lib_exists_after_caching [OF c(1,2), of "content r"]
  have ex: "path_exists (files w) (cwd e) (project_lib e)" by simp
  have "copy_dst ?F1 (cwd e) (lib_path e p) (project_lib e)
      = copy_dst (files w) (cwd e) (lib_path e p) (project_lib e)"
    by (simp add: copy_dst_def path_isdir_same_dirs [OF same])
  with c(4) have rq: "resolve (files w) (cwd e)
             (copy_dst (files w) (cwd e) (lib_path e p) (project_lib e)) = Inr q"
    by (simp add: resolve_same_dirs [OF same])
  from c(5) have ndq: "\<not> is_dir (files w) q"
    by (simp add: same)
  from c(1,2) ex rq ndq c(8) c(6) show ?thesis by (rule copied)
qed

subsubsection \<open>From the command line to the commands\<close>

lemma main_install:
  assumes "init_dirs e w = (None, w0)"
  shows "main e (prog # ''install'' # p # rest) w = finish (install_pkg e p w0)"
  using assms by (simp add: main_def dispatcher_def)

lemma main_list:
  assumes "init_dirs e w = (None, w0)"
  shows "main e (prog # ''list'' # rest) w = finish (list_pkgs e w0)"
  using assms by (simp add: main_def dispatcher_def)

subsection \<open>The install command: the cache\<close>

text \<open>
  Claim C1, as the code has it. The package name is joined into the cache path as it is,
  so the file is an entry of the library directory only when the name has no separator.
  For every package name \<open>p\<close>: when the server answers the request for \<open>p\<close> with a status
  from 200 to 299 and \<open>install_pkg\<close> runs to its end without an exception, then in the
  resulting file system the path \<open>p.nula\<close> joined to the library directory names a
  regular file whose bytes are the body of the response, and the line
  \<open>Installed p from <url>\<close> with the request's URL has been printed. For a name without a
  separator this file is an entry of the library directory itself: \<open>os.listdir\<close> of the
  library directory enumerates \<open>p.nula\<close>.
\<close>

theorem install_caches_body:
  assumes "server e (pkg_url p) = Response r"
    and "200 \<le> status_code r" and "status_code r < 300"
    and "install_pkg e p w = (None, w')"
  shows "read_rb (files w') (cwd e) (lib_path e p) = Inr (content r, True)
         \<and> (\<exists>rest. printed w' = printed w @ (''Installed '' @ p @ '' from '' @ pkg_url p) # rest)
         \<and> (CHR ''/'' \<notin> set p \<longrightarrow>
              (\<exists>names. os_listdir (files w') (cwd e) (lib_dir e) = Inr names
                   \<and> p @ ''.nula'' \<in> set names))"
proof -
  from assms(2,3) have ok: "raise_for_status r = None"
    by (simp add: raise_for_status_None)
  from install_pkg_cached [OF assms(1) ok assms(4)] obtain f
    where res': "resolve (files w') (cwd e) (lib_path e p) = Inr f"
      and at: "map_of (files w') f = Some (File (content r) True)"
      and pr: "\<exists>rest. printed w' = printed w @ (''Installed '' @ p @ '' from '' @ pkg_url p) # rest"
    by blast
  have "\<exists>names. os_listdir (files w') (cwd e) (lib_dir e) = Inr names \<and> p @ ''.nula'' \<in> set names"
    if plain: "CHR ''/'' \<notin> set p"
  proof -
    have "lib_dir e \<noteq> []" by (simp add: lib_dir_eq)
    moreover have "p @ ''.nula'' \<noteq> ''.''" "p @ ''.nula'' \<noteq> ''..''" by auto
    moreover from plain have "CHR ''/'' \<notin> set (p @ ''.nula'')" by simp
    ultimately obtain d where "resolve (files w') (cwd e) (lib_dir e) = Inr d"
      and "is_dir (files w') d" and "f = d @ [p @ ''.nula'']"
      using resolve_child [of "files w'" "cwd e" "lib_dir e" "p @ ''.nula''" f] res'
        lib_path_plain [OF plain, of e] by auto
    with at os_listdir_child [of "files w'" "cwd e" "lib_dir e" d "p @ ''.nula''"]
    show ?thesis by simp
  qed
  with read_rb_file [OF res' at] pr show ?thesis by blast
qed

theorem install_caches_body_witness:
  "server demo_env (pkg_url ''math'') =
      Response \<lparr>status_code = 200, reason = ''OK'',
                url = ''https://hypothetical-nula-repo.com/libs/math.nula'', content = [4, 5, 6]\<rparr>
   \<and> install_pkg demo_env ''math'' demo_world =
      (None, \<lparr>files = AList.update [''home'', ''u'', ''.nula'', ''lib'', ''math.nula'']
                         (File [4, 5, 6] True) demo_files,
              printed = [''Installed math from https://hypothetical-nula-repo.com/libs/math.nula'']\<rparr>)
   \<and> read_rb (AList.update [''home'', ''u'', ''.nula'', ''lib'', ''math.nula'']
                         (File [4, 5, 6] True) demo_files)
        (cwd demo_env) (lib_path demo_env ''math'') = Inr ([4, 5, 6], True)
   \<and> (\<exists>names. os_listdir (AList.update [''home'', ''u'', ''.nula'', ''lib'', ''math.nula'']
                         (File [4, 5, 6] True) demo_files)
                 (cwd demo_env) (lib_dir demo_env) = Inr names \<and> ''math.nula'' \<in> set names)"
proof -
  let ?r = "\<lparr>status_code = 200, reason = ''OK'',
             url = ''https://hypothetical-nula-repo.com/libs/math.nula'', content = [4, 5, 6]\<rparr>"
  let ?w' = "\<lparr>files = AList.update [''home'', ''u'', ''.nula'', ''lib'', ''math.nula'']
                         (File [4, 5, 6] True) demo_files,
              printed = [''Installed math from https://hypothetical-nula-repo.com/libs/math.nula'']\<rparr>"
  have srv: "server demo_env (pkg_url ''math'') = Response ?r"
    by (simp add: demo_env_def demo_server_def pkg_url_def)
  have run: "install_pkg demo_env ''math'' demo_world = (None, ?w')"
    by code_simp
  from install_caches_body [OF srv _ _ run] srv run show ?thesis
    by simp
qed

text \<open>
  The claim C1 as stated, for every name, fails for the name \<open>../evil\<close>: the server
  answers with 200 and the install runs to its end, but the body is written to
  \<open>/home/u/.nula/evil.nula\<close>; the library directory holds the same two entries as before
  and no file named \<open>../evil.nula\<close>.
\<close>

theorem install_outside_library_counterexample:
  "server demo_env (pkg_url ''../evil'') =
      Response \<lparr>status_code = 200, reason = ''OK'',
                url = ''https://hypothetical-nula-repo.com/libs/../evil.nula'', content = [7]\<rparr>
   \<and> install_pkg demo_env ''../evil'' demo_world =
      (None, \<lparr>files = demo_files @ [([''home'', ''u'', ''.nula'', ''evil.nula''], File [7] True)],
              printed = [''Installed ../evil from https://hypothetical-nula-repo.com/libs/../evil.nula'']\<rparr>)
   \<and> os_listdir (files demo_world) (cwd demo_env) (lib_dir demo_env) = Inr [''math.nula'', ''io.nula'']
   \<and> os_listdir (files (snd (install_pkg demo_env ''../evil'' demo_world))) (cwd demo_env) (lib_dir demo_env)
        = Inr [''math.nula'', ''io.nula'']
   \<and> ''../evil.nula'' \<notin> set [''math.nula'', ''io.nula'']"
proof -
  have "server demo_env (pkg_url ''../evil'') =
      Response \<lparr>status_code = 200, reason = ''OK'',
                url = ''https://hypothetical-nula-repo.com/libs/../evil.nula'', content = [7]\<rparr>"
    by (simp add: demo_env_def demo_server_def pkg_url_def)
  moreover have "install_pkg demo_env ''../evil'' demo_world =
      (None, \<lparr>files = demo_files @ [([''home'', ''u'', ''.nula'', ''evil.nula''], File [7] True)],
              printed = [''Installed ../evil from https://hypothetical-nula-repo.com/libs/../evil.nula'']\<rparr>)"
    by code_simp
  moreover have "os_listdir (files demo_world) (cwd demo_env) (lib_dir demo_env)
      = Inr [''math.nula'', ''io.nula'']"
    by code_simp
  moreover have "os_listdir (files (snd (install_pkg demo_env ''../evil'' demo_world)))
      (cwd demo_env) (lib_dir demo_env) = Inr [''math.nula'', ''io.nula'']"
    by code_simp
  moreover have "''../evil.nula'' \<notin> set [''math.nula'', ''io.nula'']"
    by simp
  ultimately show ?thesis by blast
qed

subsection \<open>The install command: failed requests\<close>

text \<open>
  Claim C2, as the code has it. The claim speaks of every status outside 200 to 299, but
  \<open>raise_for_status\<close> raises for the statuses from 400 to 599 only. For every package
  name \<open>p\<close>: when the server answers the request for \<open>p\<close> with a status from 400 to 599,
  \<open>install_pkg\<close> writes no file and leaves the whole file system, the library directory
  included, as it was; it prints the one line \<open>Error installing p:\<close> followed by the
  message of the HTTP error, and returns without an exception.
\<close>

theorem install_error_status_writes_nothing:
  assumes "server e (pkg_url p) = Response r"
    and "400 \<le> status_code r" and "status_code r < 600"
  shows "install_pkg e p w =
           (None, w\<lparr>printed := printed w @
              [''Error installing '' @ p @ '': '' @ str_int (status_code r)
                @ (if status_code r < 500 then '' Client Error: '' else '' Server Error: '')
                @ reason r @ '' for url: '' @ url r]\<rparr>)
         \<and> files (snd (install_pkg e p w)) = files w"
  using install_pkg_error_status [OF assms, of w] by (simp add: py_print_def)

theorem install_error_status_writes_nothing_witness:
  "server demo_env (pkg_url ''nosuch'') =
      Response \<lparr>status_code = 404, reason = ''Not Found'',
                url = ''https://hypothetical-nula-repo.com/libs/nosuch.nula'', content = [9]\<rparr>
   \<and> install_pkg demo_env ''nosuch'' demo_world =
      (None, \<lparr>files = demo_files,
              printed = [''Error installing nosuch: 404 Client Error: Not Found for url: https://hypothetical-nula-repo.com/libs/nosuch.nula'']\<rparr>)"
proof -
  let ?r = "\<lparr>status_code = 404, reason = ''Not Found'',
             url = ''https://hypothetical-nula-repo.com/libs/nosuch.nula'', content = [9]\<rparr>"
  have srv: "server demo_env (pkg_url ''nosuch'') = Response ?r"
    by (simp add: demo_env_def demo_server_def pkg_url_def)
  have d: "str_int 404 = ''404''"
    by code_simp
  from install_error_status_writes_nothing [OF srv, of demo_world] srv d show ?thesis
    by (simp add: demo_world_def)
qed

text \<open>
  The claim C2 as stated fails for a status that is neither a success nor an error to
  \<open>raise_for_status\<close>: on the answer 304, which \<open>requests\<close> hands back as it is, the
  body is written to the library directory and the success line is printed.
\<close>

theorem install_status_304_counterexample:
  "server demo_env (pkg_url ''cached'') =
      Response \<lparr>status_code = 304, reason = ''Not Modified'',
                url = ''https://hypothetical-nula-repo.com/libs/cached.nula'', content = []\<rparr>
   \<and> \<not> (200 \<le> (304 :: int) \<and> (304 :: int) < 300)
   \<and> install_pkg demo_env ''cached'' demo_world =
      (None, \<lparr>files = demo_files @ [([''home'', ''u'', ''.nula'', ''lib'', ''cached.nula''], File [] True)],
              printed = [''Installed cached from https://hypothetical-nula-repo.com/libs/cached.nula'']\<rparr>)
   \<and> files (snd (install_pkg demo_env ''cached'' demo_world)) \<noteq> files demo_world"
proof -
  have "server demo_env (pkg_url ''cached'') =
      Response \<lparr>status_code = 304, reason = ''Not Modified'',
                url = ''https://hypothetical-nula-repo.com/libs/cached.nula'', content = []\<rparr>"
    by (simp add: demo_env_def demo_server_def pkg_url_def)
  moreover have run: "install_pkg demo_env ''cached'' demo_world =
      (None, \<lparr>files = demo_files @ [([''home'', ''u'', ''.nula'', ''lib'', ''cached.nula''], File [] True)],
              printed = [''Installed cached from https://hypothetical-nula-repo.com/libs/cached.nula'']\<rparr>)"
    by code_simp
  moreover have "files (snd (install_pkg demo_env ''cached'' demo_world)) \<noteq> files demo_world"
    unfolding run by (simp add: demo_world_def)
  ultimately show ?thesis by simp
qed

text \<open>
  Claim C5, as the code has it. For every invocation \<open>install p\<close> (after the start-up
  directories are in place) in which \<open>requests.get\<close> raises, or the server answers with a
  status from 400 to 599: the exception is caught inside \<open>install_pkg\<close>, the line
  \<open>Error installing p:\<close> followed by the cause (the exception's text, or the HTTP error
  with status, reason and URL) is printed, no file changes, and the process runs to the
  end of the script and exits with status 0.
\<close>

theorem request_failure_exits_zero:
  assumes "init_dirs e w = (None, w0)"
  shows "(server e (pkg_url p) = Raises cause \<longrightarrow>
            main e (prog # ''install'' # p # rest) w =
              (Exit 0, w0\<lparr>printed := printed w0 @ [''Error installing '' @ p @ '': '' @ cause]\<rparr>))
         \<and> (server e (pkg_url p) = Response r \<and> 400 \<le> status_code r \<and> status_code r < 600 \<longrightarrow>
            main e (prog # ''install'' # p # rest) w =
              (Exit 0, w0\<lparr>printed := printed w0 @
                 [''Error installing '' @ p @ '': '' @ str_int (status_code r)
                   @ (if status_code r < 500 then '' Client Error: '' else '' Server Error: '')
                   @ reason r @ '' for url: '' @ url r]\<rparr>))
         \<and> exit_status (Exit 0) = 0"
  using install_pkg_get_raises [of e p cause w0] install_pkg_error_status [of e p r w0]
  by (simp add: main_install [OF assms] finish_def py_print_def)

theorem request_failure_exits_zero_witness:
  "init_dirs demo_env demo_world = (None, demo_world)
   \<and> server demo_env (pkg_url ''offline'') = Raises ''connection refused''
   \<and> main demo_env [''nula-packages'', ''install'', ''offline''] demo_world =
        (Exit 0, \<lparr>files = demo_files, printed = [''Error installing offline: connection refused'']\<rparr>)
   \<and> server demo_env (pkg_url ''nosuch'') =
        Response \<lparr>status_code = 404, reason = ''Not Found'',
                  url = ''https://hypothetical-nula-repo.com/libs/nosuch.nula'', content = [9]\<rparr>
   \<and> main demo_env [''nula-packages'', ''install'', ''nosuch''] demo_world =
        (Exit 0, \<lparr>files = demo_files,
              printed = [''Error installing nosuch: 404 Client Error: Not Found for url: https://hypothetical-nula-repo.com/libs/nosuch.nula'']\<rparr>)"
proof -
  let ?r = "\<lparr>status_code = 404, reason = ''Not Found'',
             url = ''https://hypothetical-nula-repo.com/libs/nosuch.nula'', content = [9]\<rparr>"
  have i: "init_dirs demo_env demo_world = (None, demo_world)"
    by code_simp
  have s1: "server demo_env (pkg_url ''offline'') = Raises ''connection refused''"
    by (simp add: demo_env_def demo_server_def pkg_url_def)
  have s2: "server demo_env (pkg_url ''nosuch'') = Response ?r"
    by (simp add: demo_env_def demo_server_def pkg_url_def)
  have d: "str_int 404 = ''404''"
    by code_simp
  from request_failure_exits_zero [OF i, of "''offline''" "''connection refused''" "''nula-packages''" "[]" ?r]
    request_failure_exits_zero [OF i, of "''nosuch''" "''connection refused''" "''nula-packages''" "[]" ?r]
    i s1 s2 d
  show ?thesis by (simp add: demo_world_def)
qed

text \<open>
  The claim C5 as stated counts every status outside 200 to 299 as a failed request. On
  the answer 304 no error line is printed: the process installs the body and reports
  success.
\<close>

theorem request_status_304_counterexample:
  "server demo_env (pkg_url ''cached'') =
      Response \<lparr>status_code = 304, reason = ''Not Modified'',
                url = ''https://hypothetical-nula-repo.com/libs/cached.nula'', content = []\<rparr>
   \<and> \<not> (200 \<le> (304 :: int) \<and> (304 :: int) < 300)
   \<and> main demo_env [''nula-packages'', ''install'', ''cached''] demo_world =
      (Exit 0, \<lparr>files = demo_files @ [([''home'', ''u'', ''.nula'', ''lib'', ''cached.nula''], File [] True)],
              printed = [''Installed cached from https://hypothetical-nula-repo.com/libs/cached.nula'']\<rparr>)"
proof -
  have "server demo_env (pkg_url ''cached'') =
      Response \<lparr>status_code = 304, reason = ''Not Modified'',
                url = ''https://hypothetical-nula-repo.com/libs/cached.nula'', content = []\<rparr>"
    by (simp add: demo_env_def demo_server_def pkg_url_def)
  moreover have "main demo_env [''nula-packages'', ''install'', ''cached''] demo_world =
      (Exit 0, \<lparr>files = demo_files @ [([''home'', ''u'', ''.nula'', ''lib'', ''cached.nula''], File [] True)],
              printed = [''Installed cached from https://hypothetical-nula-repo.com/libs/cached.nula'']\<rparr>)"
    by code_simp
  ultimately show ?thesis by simp
qed

subsection \<open>The install command: the copy into the project\<close>

text \<open>
  Claim C7. For every successful install (the server answered, \<open>raise_for_status\<close> did
  not raise, and \<open>install_pkg\<close> ran to its end without an exception): if \<open>./lib\<close> is a
  directory, then afterwards the file of the artifact's base name inside \<open>./lib\<close> holds
  the response body, whatever was there under that name before, and
  \<open>Copied to project lib\<close> is printed after the \<open>Installed\<close> line; if \<open>./lib\<close> does not
  exist, then the cache file is the only change to the file system, so no copy was made,
  and the \<open>Installed\<close> line is all that is printed, so there is no message about a copy.
  Moreover no error occurs in that case: where the working directory is still in the file
  system, \<open>./lib\<close> does not exist and the cache file can be written, the install does run
  to its end.
\<close>

theorem project_copy_iff_lib_exists:
  assumes srv: "server e (pkg_url p) = Response r" and ok: "raise_for_status r = None"
  shows "(path_isdir (files w) (cwd e) (project_lib e) \<and> install_pkg e p w = (None, w') \<longrightarrow>
            read_rb (files w') (cwd e) (path_join (project_lib e) (path_basename (lib_path e p)))
              = Inr (content r, True)
            \<and> printed w' = printed w @ [''Installed '' @ p @ '' from '' @ pkg_url p,
                                         ''Copied to project lib''])
         \<and> (\<not> path_exists (files w) (cwd e) (project_lib e) \<and> install_pkg e p w = (None, w') \<longrightarrow>
            (\<exists>c. resolve (files w) (cwd e) (lib_path e p) = Inr c
                 \<and> files w' = AList.update c (File (content r) True) (files w))
            \<and> printed w' = printed w @ [''Installed '' @ p @ '' from '' @ pkg_url p])
         \<and> (path_isdir (files w) (cwd e) (cwd_str e)
              \<and> \<not> path_exists (files w) (cwd e) (project_lib e)
              \<and> open_wb (files w) (cwd e) (lib_path e p) = Inr (fs1, f) \<longrightarrow>
            install_pkg e p w =
              (None, w\<lparr>files := file_write fs1 f (content r),
                       printed := printed w @ [''Installed '' @ p @ '' from '' @ pkg_url p]\<rparr>))"
proof (intro conjI)
  let ?msg = "''Installed '' @ p @ '' from '' @ pkg_url p"
  let ?dst = "path_join (project_lib e) (path_basename (lib_path e p))"
  show "path_isdir (files w) (cwd e) (project_lib e) \<and> install_pkg e p w = (None, w') \<longrightarrow>
            read_rb (files w') (cwd e) ?dst = Inr (content r, True)
            \<and> printed w' = printed w @ [?msg, ''Copied to project lib'']"
  proof
    assume a: "path_isdir (files w) (cwd e) (project_lib e) \<and> install_pkg e p w = (None, w')"
    then have run: "install_pkg e p w = (None, w')" ..
    from srv ok run show "read_rb (files w') (cwd e) ?dst = Inr (content r, True)
            \<and> printed w' = printed w @ [?msg, ''Copied to project lib'']"
    proof (cases rule: install_pkg_cases)
      case (cached c)
      from a have "path_isdir (AList.update c (File (content r) True) (files w)) (cwd e) (project_lib e)"
        by (simp add: path_isdir_same_dirs [OF is_dir_update_file [OF cached(2)]])
      from path_isdir_exists [OF this] cached(3) show ?thesis by simp
    next
      case (copied c q)
      let ?F1 = "AList.update c (File (content r) True) (files w)"
      let ?F2 = "AList.update q (File (content r) True) ?F1"
      from a have "path_isdir ?F1 (cwd e) (project_lib e)"
        by (simp add: path_isdir_same_dirs [OF is_dir_update_file [OF copied(2)]])
      then have "copy_dst ?F1 (cwd e) (lib_path e p) (project_lib e) = ?dst"
        by (simp add: copy_dst_def)
      with copied(4) have rq: "resolve ?F1 (cwd e) ?dst = Inr q" by simp
      from rq have "resolve ?F2 (cwd e) ?dst = Inr q"
        by (simp add: resolve_same_dirs [OF is_dir_update_file [OF copied(5)]])
      moreover have "map_of ?F2 q = Some (File (content r) True)"
        by (simp add: update_conv')
      ultimately have "read_rb ?F2 (cwd e) ?dst = Inr (content r, True)"
        by (rule read_rb_file)
      with copied(6,7) show ?thesis by simp
    qed
  qed
  show "\<not> path_exists (files w) (cwd e) (project_lib e) \<and> install_pkg e p w = (None, w') \<longrightarrow>
            (\<exists>c. resolve (files w) (cwd e) (lib_path e p) = Inr c
                 \<and> files w' = AList.update c (File (content r) True) (files w))
            \<and> printed w' = printed w @ [?msg]"
  proof
    assume b: "\<not> path_exists (files w) (cwd e) (project_lib e) \<and> install_pkg e p w = (None, w')"
    then have run: "install_pkg e p w = (None, w')" ..
    from srv ok run show "(\<exists>c. resolve (files w) (cwd e) (lib_path e p) = Inr c
                 \<and> files w' = AList.update c (File (content r) True) (files w))
            \<and> printed w' = printed w @ [?msg]"
    proof (cases rule: install_pkg_cases)
      case (cached c)
      then show ?thesis by blast
    next
      case (copied c q)
      from b copied(3) project_lib_exists_after_caching [OF copied(1,2), of "content r"]
      show ?thesis by simp
    qed
  qed
  show "path_isdir (files w) (cwd e) (cwd_str e)
              \<and> \<not> path_exists (files w) (cwd e) (project_lib e)
              \<and> open_wb (files w) (cwd e) (lib_path e p) = Inr (fs1, f) \<longrightarrow>
            install_pkg e p w =
              (None, w\<lparr>files := file_write fs1 f (content r),
                       printed := printed w @ [?msg]\<rparr>)"
  proof
    assume c: "path_isdir (files w) (cwd e) (cwd_str e)
              \<and> \<not> path_exists (files w) (cwd e) (project_lib e)
              \<and> open_wb (files w) (cwd e) (lib_path e p) = Inr (fs1, f)"
    then have op: "open_wb (files w) (cwd e) (lib_path e p) = Inr (fs1, f)" by simp
    from open_wb_effect [OF op, of "content r"]
    have res: "resolve (files w) (cwd e) (lib_path e p) = Inr f"
      and nd: "\<not> is_dir (files w) f"
      and fw: "file_write fs1 f (content r) = AList.update f (File (content r) True) (files w)"
      by simp_all
    from c project_lib_exists_after_caching [OF res nd, of "content r"] fw
    have "\<not> path_exists (file_write fs1 f (content r)) (cwd e) (project_lib e)"
      by simp
    moreover from c fw have "path_isdir (file_write fs1 f (content r)) (cwd e) (cwd_str e)"
      by (simp add: path_isdir_same_dirs [OF is_dir_update_file [OF nd]])
    ultimately show "install_pkg e p w =
              (None, w\<lparr>files := file_write fs1 f (content r),
                       printed := printed w @ [?msg]\<rparr>)"
      using op by (simp add: install_pkg_fetched [OF srv ok] project_sync_alt py_print_def)
  qed
qed

theorem project_copy_iff_lib_exists_witness:
  "path_isdir (files demo_stale_project) (cwd demo_env) (project_lib demo_env)
   \<and> read_rb (files demo_stale_project) (cwd demo_env) ''/home/u/proj/lib/math.nula'' = Inr ([0], True)
   \<and> install_pkg demo_env ''math'' demo_stale_project =
        (None,
         \<lparr>files = AList.update [''home'', ''u'', ''proj'', ''lib'', ''math.nula''] (File [4, 5, 6] True)
                    (AList.update [''home'', ''u'', ''.nula'', ''lib'', ''math.nula'']
                       (File [4, 5, 6] True) (files demo_stale_project)),
           printed = [''Installed math from https://hypothetical-nula-repo.com/libs/math.nula'',
                      ''Copied to project lib'']\<rparr>)
   \<and> read_rb (AList.update [''home'', ''u'', ''proj'', ''lib'', ''math.nula''] (File [4, 5, 6] True)
                    (AList.update [''home'', ''u'', ''.nula'', ''lib'', ''math.nula'']
                       (File [4, 5, 6] True) (files demo_stale_project)))
        (cwd demo_env) ''/home/u/proj/lib/math.nula'' = Inr ([4, 5, 6], True)
   \<and> path_isdir (files demo_world) (cwd demo_env) (cwd_str demo_env)
   \<and> \<not> path_exists (files demo_world) (cwd demo_env) (project_lib demo_env)
   \<and> open_wb (files demo_world) (cwd demo_env) (lib_path demo_env ''math'') =
        Inr (AList.update [''home'', ''u'', ''.nula'', ''lib'', ''math.nula''] (File [] True) demo_files,
             [''home'', ''u'', ''.nula'', ''lib'', ''math.nula''])
   \<and> install_pkg demo_env ''math'' demo_world =
        (None,
         \<lparr>files = AList.update [''home'', ''u'', ''.nula'', ''lib'', ''math.nula'']
                       (File [4, 5, 6] True) demo_files,
           printed = [''Installed math from https://hypothetical-nula-repo.com/libs/math.nula'']\<rparr>)
   \<and> (\<exists>c. resolve (files demo_world) (cwd demo_env) (lib_path demo_env ''math'') = Inr c
          \<and> AList.update [''home'', ''u'', ''.nula'', ''lib'', ''math.nula''] (File [4, 5, 6] True) demo_files
              = AList.update c (File [4, 5, 6] True) (files demo_world))"
proof -
  let ?r = "\<lparr>status_code = 200, reason = ''OK'',
             url = ''https://hypothetical-nula-repo.com/libs/math.nula'', content = [4, 5, 6]\<rparr>"
  let ?f = "[''home'', ''u'', ''.nula'', ''lib'', ''math.nula'']"
  let ?w' = "\<lparr>files = AList.update [''home'', ''u'', ''proj'', ''lib'', ''math.nula''] (File [4, 5, 6] True)
                    (AList.update ?f (File [4, 5, 6] True) (files demo_stale_project)),
           printed = [''Installed math from https://hypothetical-nula-repo.com/libs/math.nula'',
                      ''Copied to project lib'']\<rparr>"
  let ?v = "\<lparr>files = AList.update ?f (File [4, 5, 6] True) demo_files,
           printed = [''Installed math from https://hypothetical-nula-repo.com/libs/math.nula'']\<rparr>"
  let ?fs1 = "AList.update ?f (File [] True) demo_files"
  have srv: "server demo_env (pkg_url ''math'') = Response ?r"
    by (simp add: demo_env_def demo_server_def pkg_url_def)
  have ok: "raise_for_status ?r = None"
    by (simp add: raise_for_status_def)
  have isd: "path_isdir (files demo_stale_project) (cwd demo_env) (project_lib demo_env)"
    by code_simp
  have stale: "read_rb (files demo_stale_project) (cwd demo_env) ''/home/u/proj/lib/math.nula'' = Inr ([0], True)"
    by code_simp
  have run: "install_pkg demo_env ''math'' demo_stale_project = (None, ?w')"
    by code_simp
  have dst: "path_join (project_lib demo_env) (path_basename (lib_path demo_env ''math''))
               = ''/home/u/proj/lib/math.nula''"
    by code_simp
  have cwd: "path_isdir (files demo_world) (cwd demo_env) (cwd_str demo_env)"
    by code_simp
  have nex: "\<not> path_exists (files demo_world) (cwd demo_env) (project_lib demo_env)"
    by code_simp
  have op: "open_wb (files demo_world) (cwd demo_env) (lib_path demo_env ''math'') = Inr (?fs1, ?f)"
    by code_simp
  have fw: "file_write ?fs1 ?f [4, 5, 6] = AList.update ?f (File [4, 5, 6] True) demo_files"
    by code_simp
  have run0: "install_pkg demo_env ''math'' demo_world = (None, ?v)"
    by code_simp
  have pr: "printed demo_world = []" "printed demo_stale_project = []"
    by (simp_all add: demo_world_def demo_stale_project_def)
  from project_copy_iff_lib_exists [OF srv ok, of demo_stale_project ?w' ?fs1 ?f] isd run dst
  have a: "read_rb (files ?w') (cwd demo_env) ''/home/u/proj/lib/math.nula'' = Inr ([4, 5, 6], True)"
    by simp
  from project_copy_iff_lib_exists [OF srv ok, of demo_world ?v ?fs1 ?f] nex run0
  have b: "\<exists>c. resolve (files demo_world) (cwd demo_env) (lib_path demo_env ''math'') = Inr c
          \<and> files ?v = AList.update c (File [4, 5, 6] True) (files demo_world)"
    by simp
  from a b isd stale run cwd nex op run0 show ?thesis
    by simp
qed

text \<open>
  An install in a working directory that has been removed is not a successful one:
  \<open>os.getcwd()\<close> raises after the cache file is written and the \<open>Installed\<close> line
  printed, and nobody catches the error.
\<close>

lemma install_in_removed_cwd:
  "install_pkg (demo_env\<lparr>cwd := [''home'', ''u'', ''gone'']\<rparr>) ''math'' demo_world =
     (Some (OSError ENOENT),
      \<lparr>files = AList.update [''home'', ''u'', ''.nula'', ''lib'', ''math.nula'']
                 (File [4, 5, 6] True) demo_files,
        printed = [''Installed math from https://hypothetical-nula-repo.com/libs/math.nula'']\<rparr>)"
  by code_simp

text \<open>
  Claim C10. The copy step asks \<open>os.path.exists\<close> only. For every install that runs to
  its end in a working directory where \<open>lib\<close> is a regular file: the existence test
  holds although \<open>lib\<close> is no directory, and afterwards that very file holds the
  response body in place of its old content and \<open>Copied to project lib\<close> has been
  printed; the step is neither skipped nor an error.
\<close>

theorem project_lib_regular_file_overwritten:
  assumes srv: "server e (pkg_url p) = Response r" and ok: "raise_for_status r = None"
    and run: "install_pkg e p w = (None, w')"
    and rq: "resolve (files w) (cwd e) (project_lib e) = Inr q"
    and old: "map_of (files w) q = Some (File old wr)"
  shows "path_exists (files w) (cwd e) (project_lib e)
         \<and> \<not> path_isdir (files w) (cwd e) (project_lib e)
         \<and> map_of (files w') q = Some (File (content r) True)
         \<and> read_rb (files w') (cwd e) (project_lib e) = Inr (content r, True)
         \<and> printed w' = printed w @ [''Installed '' @ p @ '' from '' @ pkg_url p,
                                      ''Copied to project lib'']"
proof -
  let ?msg = "''Installed '' @ p @ '' from '' @ pkg_url p"
  from install_pkg_effect [OF srv ok run] obtain f
    where res: "resolve (files w) (cwd e) (lib_path e p) = Inr f"
      and nd: "\<not> is_dir (files w) f"
      and eff: "let F1 = AList.update f (File (content r) True) (files w);
                msg = ''Installed '' @ p @ '' from '' @ pkg_url p
            in (\<not> path_exists F1 (cwd e) (project_lib e)
                  \<and> w' = w\<lparr>files := F1, printed := printed w @ [msg]\<rparr>)
               \<or> (path_exists F1 (cwd e) (project_lib e)
                  \<and> (\<exists>q. resolve F1 (cwd e) (copy_dst F1 (cwd e) (lib_path e p) (project_lib e)) = Inr q
                        \<and> q \<noteq> f \<and> \<not> is_dir F1 q
                        \<and> w' = w\<lparr>files := AList.update q (File (content r) True) F1,
                                  printed := printed w @ [msg, ''Copied to project lib'']\<rparr>))"
    by blast
  let ?F1 = "AList.update f (File (content r) True) (files w)"
  from rq old have ex0: "path_exists (files w) (cwd e) (project_lib e)"
    by (auto simp: path_exists_iff)
  from rq old have nd0: "\<not> path_isdir (files w) (cwd e) (project_lib e)"
    by (auto simp: path_isdir_iff is_dir_def)
  from ex0 have ex1: "path_exists ?F1 (cwd e) (project_lib e)"
    by (simp add: project_lib_exists_after_caching [OF res nd])
  from nd0 have "\<not> path_isdir ?F1 (cwd e) (project_lib e)"
    by (simp add: path_isdir_same_dirs [OF is_dir_update_file [OF nd]])
  then have cd: "copy_dst ?F1 (cwd e) (lib_path e p) (project_lib e) = project_lib e"
    by (simp add: copy_dst_def)
  from rq have rq1: "resolve ?F1 (cwd e) (project_lib e) = Inr q"
    by (simp add: resolve_same_dirs [OF is_dir_update_file [OF nd]])
  from ex1 eff cd rq1 have ndq: "\<not> is_dir ?F1 q"
    and w': "w' = w\<lparr>files := AList.update q (File (content r) True) ?F1,
                    printed := printed w @ [?msg, ''Copied to project lib'']\<rparr>"
    by (auto simp: Let_def)
  let ?F2 = "AList.update q (File (content r) True) ?F1"
  from rq1 have "resolve ?F2 (cwd e) (project_lib e) = Inr q"
    by (simp add: resolve_same_dirs [OF is_dir_update_file [OF ndq]])
  moreover have at: "map_of ?F2 q = Some (File (content r) True)"
    by (simp add: update_conv')
  ultimately have "read_rb ?F2 (cwd e) (project_lib e) = Inr (content r, True)"
    by (rule read_rb_file)
  with w' at ex0 nd0 show ?thesis
    by simp
qed

theorem project_lib_regular_file_overwritten_witness:
  "resolve (files demo_lib_file) (cwd demo_env) (project_lib demo_env) = Inr [''home'', ''u'', ''proj'', ''lib'']
   \<and> map_of (files demo_lib_file) [''home'', ''u'', ''proj'', ''lib''] = Some (File [8, 8] True)
   \<and> install_pkg demo_env ''math'' demo_lib_file =
        (None,
         \<lparr>files = AList.update [''home'', ''u'', ''proj'', ''lib''] (File [4, 5, 6] True)
                    (AList.update [''home'', ''u'', ''.nula'', ''lib'', ''math.nula'']
                       (File [4, 5, 6] True) (files demo_lib_file)),
           printed = [''Installed math from https://hypothetical-nula-repo.com/libs/math.nula'',
                      ''Copied to project lib'']\<rparr>)
   \<and> map_of (AList.update [''home'', ''u'', ''proj'', ''lib''] (File [4, 5, 6] True)
                    (AList.update [''home'', ''u'', ''.nula'', ''lib'', ''math.nula'']
                       (File [4, 5, 6] True) (files demo_lib_file)))
        [''home'', ''u'', ''proj'', ''lib''] = Some (File [4, 5, 6] True)
   \<and> path_exists (files demo_lib_file) (cwd demo_env) (project_lib demo_env)
   \<and> \<not> path_isdir (files demo_lib_file) (cwd demo_env) (project_lib demo_env)"
proof -
  let ?r = "\<lparr>status_code = 200, reason = ''OK'',
             url = ''https://hypothetical-nula-repo.com/libs/math.nula'', content = [4, 5, 6]\<rparr>"
  let ?w' = "\<lparr>files = AList.update [''home'', ''u'', ''proj'', ''lib''] (File [4, 5, 6] True)
                    (AList.update [''home'', ''u'', ''.nula'', ''lib'', ''math.nula'']
                       (File [4, 5, 6] True) (files demo_lib_file)),
           printed = [''Installed math from https://hypothetical-nula-repo.com/libs/math.nula'',
                      ''Copied to project lib'']\<rparr>"
  have srv: "server demo_env (pkg_url ''math'') = Response ?r"
    by (simp add: demo_env_def demo_server_def pkg_url_def)
  have ok: "raise_for_status ?r = None"
    by (simp add: raise_for_status_def)
  have rq: "resolve (files demo_lib_file) (cwd demo_env) (project_lib demo_env) = Inr [''home'', ''u'', ''proj'', ''lib'']"
    by code_simp
  have old: "map_of (files demo_lib_file) [''home'', ''u'', ''proj'', ''lib''] = Some (File [8, 8] True)"
    by code_simp
  have run: "install_pkg demo_env ''math'' demo_lib_file = (None, ?w')"
    by code_simp
  from project_lib_regular_file_overwritten [OF srv ok run rq old] rq old run
  show ?thesis
    by simp
qed

text \<open>
  Claim C3, as the code has it. The handler of \<open>install_pkg\<close> catches
  \<open>requests.RequestException\<close> only, so an error of \<open>shutil.copy\<close> is not caught and
  the exit status does tell a failed copy from a successful one. For every invocation
  \<open>install p\<close> in which the package was fetched and cached and \<open>./lib\<close> exists: when the
  copy fails, the error leaves \<open>install_pkg\<close> as an uncaught exception after the cache
  file has been written and the \<open>Installed\<close> line printed, the program prints nothing
  about the copy, and the process ends with the interpreter's traceback and exit status
  1; when the copy succeeds, the process ends with exit status 0.
\<close>

theorem copy_failure_exits_one:
  assumes init: "init_dirs e w = (None, w0)"
    and srv: "server e (pkg_url p) = Response r" and ok: "raise_for_status r = None"
    and op: "open_wb (files w0) (cwd e) (lib_path e p) = Inr (fs1, f)"
    and ex: "path_exists (files w0) (cwd e) (project_lib e)"
  shows "(shutil_copy (file_write fs1 f (content r)) (cwd e) (lib_path e p) (project_lib e) = Inl err \<longrightarrow>
            main e (prog # ''install'' # p # rest) w =
              (Traceback (OSError err),
               w0\<lparr>files := file_write fs1 f (content r),
                  printed := printed w0 @ [''Installed '' @ p @ '' from '' @ pkg_url p]\<rparr>)
            \<and> exit_status (fst (main e (prog # ''install'' # p # rest) w)) = 1)
         \<and> (shutil_copy (file_write fs1 f (content r)) (cwd e) (lib_path e p) (project_lib e) = Inr fs2 \<longrightarrow>
            main e (prog # ''install'' # p # rest) w =
              (Exit 0,
               w0\<lparr>files := fs2,
                  printed := printed w0 @ [''Installed '' @ p @ '' from '' @ pkg_url p,
                                           ''Copied to project lib'']\<rparr>)
            \<and> exit_status (fst (main e (prog # ''install'' # p # rest) w)) = 0)"
proof -
  from open_wb_effect [OF op, of "content r"]
  have res: "resolve (files w0) (cwd e) (lib_path e p) = Inr f"
    and nd: "\<not> is_dir (files w0) f"
    and fw: "file_write fs1 f (content r) = AList.update f (File (content r) True) (files w0)"
    by simp_all
  from ex project_lib_exists_after_caching [OF res nd, of "content r"] fw
  have ex1: "path_exists (file_write fs1 f (content r)) (cwd e) (project_lib e)"
    by simp
  from install_pkg_copy_fails [OF srv ok op ex1, of err]
    install_pkg_copy_succeeds [OF srv ok op ex1, of fs2]
  show ?thesis
    by (simp add: main_install [OF init] finish_def)
qed

theorem copy_failure_exits_one_witness:
  "init_dirs demo_env demo_readonly_project = (None, demo_readonly_project)
   \<and> path_exists (files demo_readonly_project) (cwd demo_env) (project_lib demo_env)
   \<and> shutil_copy
        (file_write (AList.update [''home'', ''u'', ''.nula'', ''lib'', ''math.nula''] (File [] True)
                       (files demo_readonly_project))
           [''home'', ''u'', ''.nula'', ''lib'', ''math.nula''] [4, 5, 6])
        (cwd demo_env) (lib_path demo_env ''math'') (project_lib demo_env) = Inl EACCES
   \<and> main demo_env [''nula-packages'', ''install'', ''math''] demo_readonly_project =
        (Traceback (OSError EACCES),
         \<lparr>files = AList.update [''home'', ''u'', ''.nula'', ''lib'', ''math.nula'']
                     (File [4, 5, 6] True) (files demo_readonly_project),
           printed = [''Installed math from https://hypothetical-nula-repo.com/libs/math.nula'']\<rparr>)
   \<and> exit_status (fst (main demo_env [''nula-packages'', ''install'', ''math''] demo_readonly_project)) = 1
   \<and> init_dirs demo_env demo_project = (None, demo_project)
   \<and> main demo_env [''nula-packages'', ''install'', ''math''] demo_project =
        (Exit 0,
         \<lparr>files = AList.update [''home'', ''u'', ''proj'', ''lib'', ''math.nula''] (File [4, 5, 6] True)
                    (AList.update [''home'', ''u'', ''.nula'', ''lib'', ''math.nula'']
                       (File [4, 5, 6] True) (files demo_project)),
           printed = [''Installed math from https://hypothetical-nula-repo.com/libs/math.nula'',
                      ''Copied to project lib'']\<rparr>)"
proof -
  let ?r = "\<lparr>status_code = 200, reason = ''OK'',
             url = ''https://hypothetical-nula-repo.com/libs/math.nula'', content = [4, 5, 6]\<rparr>"
  let ?f = "[''home'', ''u'', ''.nula'', ''lib'', ''math.nula'']"
  let ?fs1 = "AList.update ?f (File [] True) (files demo_readonly_project)"
  have init: "init_dirs demo_env demo_readonly_project = (None, demo_readonly_project)"
    by code_simp
  have srv: "server demo_env (pkg_url ''math'') = Response ?r"
    by (simp add: demo_env_def demo_server_def pkg_url_def)
  have ok: "raise_for_status ?r = None"
    by (simp add: raise_for_status_def)
  have op: "open_wb (files demo_readonly_project) (cwd demo_env) (lib_path demo_env ''math'') = Inr (?fs1, ?f)"
    by code_simp
  have ex: "path_exists (files demo_readonly_project) (cwd demo_env) (project_lib demo_env)"
    by code_simp
  have cp: "shutil_copy (file_write ?fs1 ?f (content ?r)) (cwd demo_env) (lib_path demo_env ''math'')
              (project_lib demo_env) = Inl EACCES"
    by code_simp
  have fw: "file_write ?fs1 ?f [4, 5, 6] = AList.update ?f (File [4, 5, 6] True) (files demo_readonly_project)"
    by code_simp
  have pr: "printed demo_readonly_project = []"
    by (simp add: demo_readonly_project_def)
  from copy_failure_exits_one [OF init srv ok op ex, of EACCES "''nula-packages''" "[]" "[]"] cp
  have "main demo_env [''nula-packages'', ''install'', ''math''] demo_readonly_project =
          (Traceback (OSError EACCES),
           demo_readonly_project\<lparr>files := file_write ?fs1 ?f (content ?r),
              printed := printed demo_readonly_project @ [''Installed '' @ ''math'' @ '' from '' @ pkg_url ''math'']\<rparr>)
        \<and> exit_status (fst (main demo_env [''nula-packages'', ''install'', ''math''] demo_readonly_project)) = 1"
    by blast
  note failing = this
  let ?gs1 = "AList.update ?f (File [] True) (files demo_project)"
  let ?gs2 = "AList.update [''home'', ''u'', ''proj'', ''lib'', ''math.nula''] (File [4, 5, 6] True)
                (AList.update ?f (File [4, 5, 6] True) (files demo_project))"
  have init2: "init_dirs demo_env demo_project = (None, demo_project)"
    by code_simp
  have op2: "open_wb (files demo_project) (cwd demo_env) (lib_path demo_env ''math'') = Inr (?gs1, ?f)"
    by code_simp
  have ex2: "path_exists (files demo_project) (cwd demo_env) (project_lib demo_env)"
    by code_simp
  have cp2: "shutil_copy (file_write ?gs1 ?f (content ?r)) (cwd demo_env) (lib_path demo_env ''math'')
              (project_lib demo_env) = Inr ?gs2"
    by code_simp
  have pr2: "printed demo_project = []"
    by (simp add: demo_project_def)
  from copy_failure_exits_one [OF init2 srv ok op2 ex2, of EACCES "''nula-packages''" "[]" ?gs2] cp2
  have "main demo_env [''nula-packages'', ''install'', ''math''] demo_project =
          (Exit 0,
           demo_project\<lparr>files := ?gs2,
              printed := printed demo_project @ [''Installed '' @ ''math'' @ '' from '' @ pkg_url ''math'',
                                                 ''Copied to project lib'']\<rparr>)"
    by blast
  with failing init init2 ex cp fw pr pr2 show ?thesis
    by (simp add: pkg_url_def)
qed

text \<open>
  The claim C3 as stated fails where the project's \<open>lib\<close> directory may not be written:
  the process ends with \<open>PermissionError\<close> and status 1, while the same command with a
  writable \<open>lib\<close> ends with status 0.
\<close>

theorem copy_failure_exit_status_counterexample:
  "main demo_env [''nula-packages'', ''install'', ''math''] demo_readonly_project =
        (Traceback (OSError EACCES),
         \<lparr>files = AList.update [''home'', ''u'', ''.nula'', ''lib'', ''math.nula'']
                     (File [4, 5, 6] True) (files demo_readonly_project),
           printed = [''Installed math from https://hypothetical-nula-repo.com/libs/math.nula'']\<rparr>)
   \<and> exit_status (fst (main demo_env [''nula-packages'', ''install'', ''math''] demo_readonly_project)) = 1
   \<and> exit_status (fst (main demo_env [''nula-packages'', ''install'', ''math''] demo_project)) = 0"
  by code_simp

subsection \<open>Installing a package again\<close>

text \<open>
  Claim C8. For every package name \<open>p\<close>: when \<open>p\<close> is installed twice in a row, both
  installs running to their end (the server may answer differently the second time), the
  cache path of \<open>p\<close> names one file and its content is the second response body. Nothing
  of the first install is kept: the resulting file system is the initial one with the
  cache file, and the copy in \<open>./lib\<close> where that exists, set to the second body, every
  other entry being as it was before the first install; it is the file system that
  installing the second answer alone leaves. Where every path of the initial file system
  names one node, the cache path has exactly one entry, \<open>os.listdir\<close> of the library
  directory never enumerates \<open>p.nula\<close> more than once, neither after the first nor after
  the second install, and for a name without a separator exactly once.
\<close>

theorem reinstall_overwrites:
  assumes s1: "server e (pkg_url p) = Response r1" and ok1: "raise_for_status r1 = None"
    and s2: "again (pkg_url p) = Response r2" and ok2: "raise_for_status r2 = None"
    and run1: "install_pkg e p w = (None, w1)"
    and run2: "install_pkg (e\<lparr>server := again\<rparr>) p w1 = (None, w2)"
  shows "read_rb (files w2) (cwd e) (lib_path e p) = Inr (content r2, True)
         \<and> (\<exists>c. resolve (files w) (cwd e) (lib_path e p) = Inr c
               \<and> ((\<not> path_exists (files w) (cwd e) (project_lib e)
                     \<and> files w2 = AList.update c (File (content r2) True) (files w))
                  \<or> (path_exists (files w) (cwd e) (project_lib e)
                     \<and> (\<exists>q. resolve (files w) (cwd e)
                                (copy_dst (files w) (cwd e) (lib_path e p) (project_lib e)) = Inr q
                           \<and> files w2 = AList.update q (File (content r2) True)
                                          (AList.update c (File (content r2) True) (files w)))))
               \<and> (distinct (map fst (files w)) \<longrightarrow>
                     length (filter (\<lambda>kv. fst kv = c) (files w2)) = 1))
         \<and> (\<forall>v. install_pkg (e\<lparr>server := again\<rparr>) p w = (None, v) \<longrightarrow> files v = files w2)
         \<and> (distinct (map fst (files w)) \<longrightarrow>
               (\<forall>names. os_listdir (files w1) (cwd e) (lib_dir e) = Inr names \<longrightarrow>
                    length (filter (\<lambda>n. n = p @ ''.nula'') names) \<le> 1)
               \<and> (\<forall>names. os_listdir (files w2) (cwd e) (lib_dir e) = Inr names \<longrightarrow>
                    length (filter (\<lambda>n. n = p @ ''.nula'') names) \<le> 1)
               \<and> (CHR ''/'' \<notin> set p \<longrightarrow>
                    (\<exists>names. os_listdir (files w2) (cwd e) (lib_dir e) = Inr names
                         \<and> length (filter (\<lambda>n. n = p @ ''.nula'') names) = 1)))"
proof -
  let ?e2 = "e\<lparr>server := again\<rparr>"
  let ?B1 = "File (content r1) True" and ?B2 = "File (content r2) True"
  let ?pl = "project_lib e"
  have env: "cwd ?e2 = cwd e" "lib_path ?e2 p = lib_path e p" "project_lib ?e2 = project_lib e"
    "lib_dir ?e2 = lib_dir e"
    by (simp_all add: lib_path_def lib_dir_def nula_dir_def project_lib_def cwd_str_def)
  have s2': "server ?e2 (pkg_url p) = Response r2"
    using s2 by simp
  from install_pkg_cached [OF s1 ok1 run1] obtain f
    where res0: "resolve (files w) (cwd e) (lib_path e p) = Inr f"
      and res1: "resolve (files w1) (cwd e) (lib_path e p) = Inr f"
      and dirs1: "\<And>x. is_dir (files w1) x = is_dir (files w) x"
    by blast
  from install_pkg_cached [OF s2' ok2 run2] res1
  have res2: "resolve (files w2) (cwd e) (lib_path e p) = Inr f"
    and at2: "map_of (files w2) f = Some (File (content r2) True)"
    by (auto simp: env)
  have form: "(\<not> path_exists (files w) (cwd e) ?pl
                 \<and> files w2 = AList.update f ?B2 (files w))
            \<or> (path_exists (files w) (cwd e) ?pl
                 \<and> (\<exists>q. resolve (files w) (cwd e)
                            (copy_dst (files w) (cwd e) (lib_path e p) ?pl) = Inr q
                       \<and> files w2 = AList.update q ?B2 (AList.update f ?B2 (files w))))"
    using s1 ok1 run1
  proof (cases rule: install_pkg_files)
    case a: (cached c)
    with res0 have c: "c = f" by simp
    note a = a [unfolded c]
    have nex1: "\<not> path_exists (files w1) (cwd e) ?pl"
      using a(3,4) project_lib_exists_after_caching [OF a(1,2), of "content r1"] by simp
    from s2' ok2 run2 show ?thesis
    proof (cases rule: install_pkg_files)
      case b: (cached c2)
      with res1 have "c2 = f" by (simp add: env)
      with b(4) a(4) have "files w2 = AList.update f ?B2 (files w)" by simp
      with a(3) show ?thesis by simp
    next
      case b: (copied c2 q2)
      with nex1 show ?thesis by (simp add: env)
    qed
  next
    case a: (copied c q)
    with res0 have c: "c = f" by simp
    note a = a [unfolded c]
    let ?F1 = "AList.update f ?B1 (files w)"
    have ndq1: "\<not> is_dir ?F1 q"
      using a(5) by (simp add: is_dir_update_file [OF a(2)])
    have ex1: "path_exists (files w1) (cwd e) ?pl"
      unfolding a(7)
      by (rule path_exists_update_file [OF path_exists_update_file [OF a(3) a(2)] ndq1])
    from s2' ok2 run2 show ?thesis
    proof (cases rule: install_pkg_files)
      case b: (cached c2)
      with ex1 show ?thesis by (simp add: env)
    next
      case b: (copied c2 q2)
      with res1 have c2: "c2 = f" by (simp add: env)
      note b = b [unfolded c2 env]
      have "copy_dst (files w1) (cwd e) (lib_path e p) ?pl
          = copy_dst (files w) (cwd e) (lib_path e p) ?pl"
        by (simp add: copy_dst_def path_isdir_same_dirs [OF dirs1])
      with b(4) a(4) have q2: "q2 = q"
        by (simp add: resolve_same_dirs [OF dirs1])
      have "f \<in> fst ` set ?F1"
        by (simp add: dom_update)
      from update_commute [OF a(6) [symmetric] this, of ?B2 ?B1]
      have "AList.update f ?B2 (AList.update q ?B1 ?F1) = AList.update q ?B1 (AList.update f ?B2 (files w))"
        by simp
      with b(7) a(7) q2 have "files w2 = AList.update q ?B2 (AList.update f ?B2 (files w))"
        by simp
      with a(3,4) show ?thesis by blast
    qed
  qed
  have single: "files v = files w2" if v: "install_pkg ?e2 p w = (None, v)" for v
    using s2' ok2 v
  proof (cases rule: install_pkg_files)
    case a: (cached c)
    with res0 have "c = f" by (simp add: env)
    with a form show ?thesis by (auto simp: env)
  next
    case a: (copied c q)
    with res0 have "c = f" by (simp add: env)
    with a form show ?thesis by (auto simp: env)
  qed
  have d1: "distinct (map fst (files w1))" and d2: "distinct (map fst (files w2))"
    if dist: "distinct (map fst (files w))"
  proof -
    from install_pkg_keys [OF s1 ok1 run1 dist] show "distinct (map fst (files w1))" .
    from install_pkg_keys [OF s2' ok2 run2 this] show "distinct (map fst (files w2))" .
  qed
  from at2 have mem: "f \<in> fst ` set (files w2)"
    by (metis map_of_SomeD fst_conv image_eqI)
  have one: "length (filter (\<lambda>kv. fst kv = f) (files w2)) = 1"
    if "distinct (map fst (files w))"
    by (rule one_entry_in_distinct [OF d2 [OF that] mem])
  have once: "\<exists>names. os_listdir (files w2) (cwd e) (lib_dir e) = Inr names
                   \<and> length (filter (\<lambda>n. n = p @ ''.nula'') names) = 1"
    if dist: "distinct (map fst (files w))" and plain: "CHR ''/'' \<notin> set p"
  proof -
    have "lib_dir e \<noteq> []" by (simp add: lib_dir_eq)
    moreover have "p @ ''.nula'' \<noteq> ''.''" "p @ ''.nula'' \<noteq> ''..''" by auto
    moreover from plain have "CHR ''/'' \<notin> set (p @ ''.nula'')" by simp
    ultimately obtain d where rd: "resolve (files w2) (cwd e) (lib_dir e) = Inr d"
      and isd: "is_dir (files w2) d" and f: "f = d @ [p @ ''.nula'']"
      using resolve_child [of "files w2" "cwd e" "lib_dir e" "p @ ''.nula''" f] res2
        lib_path_plain [OF plain, of e] by auto
    from rd isd have ls: "os_listdir (files w2) (cwd e) (lib_dir e) = Inr (children (files w2) d)"
      by (auto simp: os_listdir_def is_dir_def split: option.splits node.splits)
    from mem f have "p @ ''.nula'' \<in> set (children (files w2) d)"
      by (simp add: set_children)
    from once_in_distinct [OF distinct_children [OF d2 [OF dist]] this] ls show ?thesis
      by simp
  qed
  from read_rb_file [OF res2 at2] res0 form one single
    listed_at_most_once [OF d1] listed_at_most_once [OF d2] once
  show ?thesis
    by blast
qed

theorem reinstall_overwrites_witness:
  "install_pkg demo_env ''math'' demo_project =
      (None,
       \<lparr>files = AList.update [''home'', ''u'', ''proj'', ''lib'', ''math.nula''] (File [4, 5, 6] True)
                  (AList.update [''home'', ''u'', ''.nula'', ''lib'', ''math.nula'']
                     (File [4, 5, 6] True) (files demo_project)),
         printed = [''Installed math from https://hypothetical-nula-repo.com/libs/math.nula'',
                    ''Copied to project lib'']\<rparr>)
   \<and> install_pkg
        (demo_env\<lparr>server := \<lambda>u. Response \<lparr>status_code = 200, reason = ''OK'', url = u, content = [7, 7]\<rparr>\<rparr>)
        ''math''
        \<lparr>files = AList.update [''home'', ''u'', ''proj'', ''lib'', ''math.nula''] (File [4, 5, 6] True)
                  (AList.update [''home'', ''u'', ''.nula'', ''lib'', ''math.nula'']
                     (File [4, 5, 6] True) (files demo_project)),
         printed = [''Installed math from https://hypothetical-nula-repo.com/libs/math.nula'',
                    ''Copied to project lib'']\<rparr> =
      (None,
       \<lparr>files = AList.update [''home'', ''u'', ''proj'', ''lib'', ''math.nula''] (File [7, 7] True)
                  (AList.update [''home'', ''u'', ''.nula'', ''lib'', ''math.nula'']
                     (File [7, 7] True) (files demo_project)),
         printed = [''Installed math from https://hypothetical-nula-repo.com/libs/math.nula'',
                    ''Copied to project lib'',
                    ''Installed math from https://hypothetical-nula-repo.com/libs/math.nula'',
                    ''Copied to project lib'']\<rparr>)
   \<and> read_rb (AList.update [''home'', ''u'', ''proj'', ''lib'', ''math.nula''] (File [7, 7] True)
                  (AList.update [''home'', ''u'', ''.nula'', ''lib'', ''math.nula'']
                     (File [7, 7] True) (files demo_project)))
        (cwd demo_env) (lib_path demo_env ''math'') = Inr ([7, 7], True)
   \<and> install_pkg
        (demo_env\<lparr>server := \<lambda>u. Response \<lparr>status_code = 200, reason = ''OK'', url = u, content = [7, 7]\<rparr>\<rparr>)
        ''math'' demo_project =
      (None,
       \<lparr>files = AList.update [''home'', ''u'', ''proj'', ''lib'', ''math.nula''] (File [7, 7] True)
                  (AList.update [''home'', ''u'', ''.nula'', ''lib'', ''math.nula'']
                     (File [7, 7] True) (files demo_project)),
         printed = [''Installed math from https://hypothetical-nula-repo.com/libs/math.nula'',
                    ''Copied to project lib'']\<rparr>)
   \<and> distinct (map fst (files demo_project))
   \<and> resolve (files demo_project) (cwd demo_env) (lib_path demo_env ''math'')
        = Inr [''home'', ''u'', ''.nula'', ''lib'', ''math.nula'']
   \<and> length (filter (\<lambda>kv. fst kv = [''home'', ''u'', ''.nula'', ''lib'', ''math.nula''])
         (AList.update [''home'', ''u'', ''proj'', ''lib'', ''math.nula''] (File [7, 7] True)
                  (AList.update [''home'', ''u'', ''.nula'', ''lib'', ''math.nula'']
                     (File [7, 7] True) (files demo_project)))) = 1
   \<and> (\<exists>names. os_listdir (AList.update [''home'', ''u'', ''proj'', ''lib'', ''math.nula''] (File [7, 7] True)
                  (AList.update [''home'', ''u'', ''.nula'', ''lib'', ''math.nula'']
                     (File [7, 7] True) (files demo_project)))
                 (cwd demo_env) (lib_dir demo_env) = Inr names
          \<and> length (filter (\<lambda>n. n = ''math.nula'') names) = 1)"
proof -
  let ?r1 = "\<lparr>status_code = 200, reason = ''OK'',
             url = ''https://hypothetical-nula-repo.com/libs/math.nula'', content = [4, 5, 6]\<rparr>"
  let ?r2 = "\<lparr>status_code = 200, reason = ''OK'',
             url = ''https://hypothetical-nula-repo.com/libs/math.nula'', content = [7, 7]\<rparr>"
  let ?again = "\<lambda>u. Response \<lparr>status_code = 200, reason = ''OK'', url = u, content = [7, 7]\<rparr>"
  let ?lib = "[''home'', ''u'', ''.nula'', ''lib'', ''math.nula'']"
  let ?prj = "[''home'', ''u'', ''proj'', ''lib'', ''math.nula'']"
  let ?w1 = "\<lparr>files = AList.update ?prj (File [4, 5, 6] True)
                  (AList.update ?lib (File [4, 5, 6] True) (files demo_project)),
         printed = [''Installed math from https://hypothetical-nula-repo.com/libs/math.nula'',
                    ''Copied to project lib'']\<rparr>"
  let ?w2 = "\<lparr>files = AList.update ?prj (File [7, 7] True)
                  (AList.update ?lib (File [7, 7] True) (files demo_project)),
         printed = [''Installed math from https://hypothetical-nula-repo.com/libs/math.nula'',
                    ''Copied to project lib'',
                    ''Installed math from https://hypothetical-nula-repo.com/libs/math.nula'',
                    ''Copied to project lib'']\<rparr>"
  have s1: "server demo_env (pkg_url ''math'') = Response ?r1"
    by (simp add: demo_env_def demo_server_def pkg_url_def)
  have s2: "?again (pkg_url ''math'') = Response ?r2"
    by (simp add: pkg_url_def)
  have ok1: "raise_for_status ?r1 = None" and ok2: "raise_for_status ?r2 = None"
    by (simp_all add: raise_for_status_def)
  have run1: "install_pkg demo_env ''math'' demo_project = (None, ?w1)"
    by code_simp
  have run2: "install_pkg (demo_env\<lparr>server := ?again\<rparr>) ''math'' ?w1 = (None, ?w2)"
    by code_simp
  have dist: "distinct (map fst (files demo_project))"
    by code_simp
  have single: "install_pkg (demo_env\<lparr>server := ?again\<rparr>) ''math'' demo_project =
      (None, \<lparr>files = files ?w2,
               printed = [''Installed math from https://hypothetical-nula-repo.com/libs/math.nula'',
                          ''Copied to project lib'']\<rparr>)"
    by code_simp
  have res: "resolve (files demo_project) (cwd demo_env) (lib_path demo_env ''math'') = Inr ?lib"
    by code_simp
  from reinstall_overwrites [OF s1 ok1 s2 ok2 run1 run2] res dist
  have "read_rb (files ?w2) (cwd demo_env) (lib_path demo_env ''math'') = Inr ([7, 7], True)"
    and "length (filter (\<lambda>kv. fst kv = ?lib) (files ?w2)) = 1"
    and "\<exists>names. os_listdir (files ?w2) (cwd demo_env) (lib_dir demo_env) = Inr names
          \<and> length (filter (\<lambda>n. n = ''math.nula'') names) = 1"
    by auto
  with run1 run2 single res dist show ?thesis
    by simp
qed

subsection \<open>Package names are not validated\<close>

text \<open>
  Claim C9. The request URL is a function of the package name alone: the fixed template
  \<open>https://hypothetical-nula-repo.com/libs/<pkg>.nula\<close> with the name put in as it is,
  whatever the string. The cache path is likewise the library directory joined with the
  name and the extension, with no check of the name. So there is a name, one with \<open>../\<close>,
  for which an install runs to its end and creates its file at a path that does not lie
  under the library directory.
\<close>

theorem unvalidated_name_escapes_library:
  "(\<forall>p. pkg_url p = ''https://hypothetical-nula-repo.com/libs/'' @ p @ ''.nula'')
   \<and> (\<forall>e p. lib_path e p
          = path_join (path_join (path_join (home_dir e) ''.nula'') ''lib'') (p @ ''.nula''))
   \<and> (\<exists>e p w w' d f.
         install_pkg e p w = (None, w')
         \<and> resolve (files w) (cwd e) (lib_dir e) = Inr d
         \<and> resolve (files w) (cwd e) (lib_path e p) = Inr f
         \<and> take (length d) f \<noteq> d
         \<and> map_of (files w) f = None
         \<and> map_of (files w') f = Some (File [7] True))"
proof -
  let ?w' = "\<lparr>files = demo_files @ [([''home'', ''u'', ''.nula'', ''evil.nula''], File [7] True)],
             printed = [''Installed ../evil from https://hypothetical-nula-repo.com/libs/../evil.nula'']\<rparr>"
  have "install_pkg demo_env ''../evil'' demo_world = (None, ?w')"
    by code_simp
  moreover have "resolve (files demo_world) (cwd demo_env) (lib_dir demo_env)
      = Inr [''home'', ''u'', ''.nula'', ''lib'']"
    by code_simp
  moreover have "resolve (files demo_world) (cwd demo_env) (lib_path demo_env ''../evil'')
      = Inr [''home'', ''u'', ''.nula'', ''evil.nula'']"
    by code_simp
  moreover have "take (length [''home'', ''u'', ''.nula'', ''lib'']) [''home'', ''u'', ''.nula'', ''evil.nula'']
      \<noteq> [''home'', ''u'', ''.nula'', ''lib'']"
    by simp
  moreover have "map_of (files demo_world) [''home'', ''u'', ''.nula'', ''evil.nula''] = None"
    by code_simp
  moreover have "map_of (files ?w') [''home'', ''u'', ''.nula'', ''evil.nula''] = Some (File [7] True)"
    by code_simp
  ultimately have "\<exists>e p w w' d f.
         install_pkg e p w = (None, w')
         \<and> resolve (files w) (cwd e) (lib_dir e) = Inr d
         \<and> resolve (files w) (cwd e) (lib_path e p) = Inr f
         \<and> take (length d) f \<noteq> d
         \<and> map_of (files w) f = None
         \<and> map_of (files w') f = Some (File [7] True)"
    by blast
  then show ?thesis
    by (simp add: pkg_url_def lib_path_def lib_dir_def nula_dir_def)
qed

subsection \<open>The list command\<close>

text \<open>
  Claim C4. Whatever the library directory holds, the \<open>list\<close> command (the script run
  with \<open>list\<close> as its first argument, further arguments ignored, once the start-up
  directories are in place) prints exactly the names that \<open>os.listdir\<close> enumerates for
  the library directory, which are the names of the entries directly inside it: a header
  line and then one \<open>print\<close> for each entry, the name alone behind the dash and no path,
  in the order of enumeration; and for an empty directory the single line
  \<open>No packages installed.\<close> and nothing else. No file changes, nothing is raised and the
  process exits with status 0. The command does this by way of \<open>list_pkgs\<close>.
\<close>

theorem list_command_prints_entries:
  assumes init: "init_dirs e w = (None, w0)"
    and ls: "os_listdir (files w0) (cwd e) (lib_dir e) = Inr pkgs"
  shows "main e (prog # ''list'' # rest) w =
           (Exit 0, w0\<lparr>printed := printed w0 @
              (if pkgs = [] then [''No packages installed.'']
               else ''Installed packages:'' # map (\<lambda>p. ''- '' @ p) pkgs)\<rparr>)
         \<and> list_pkgs e w0 =
           (None, w0\<lparr>printed := printed w0 @
              (if pkgs = [] then [''No packages installed.'']
               else ''Installed packages:'' # map (\<lambda>p. ''- '' @ p) pkgs)\<rparr>)
         \<and> (\<exists>d. resolve (files w0) (cwd e) (lib_dir e) = Inr d
                \<and> set pkgs = {n. d @ [n] \<in> fst ` set (files w0)})"
proof -
  have l: "list_pkgs e w0 =
           (None, w0\<lparr>printed := printed w0 @
              (if pkgs = [] then [''No packages installed.'']
               else ''Installed packages:'' # map (\<lambda>p. ''- '' @ p) pkgs)\<rparr>)"
    using ls by (simp add: list_pkgs_def fold_py_print) (simp add: py_print_def)
  then have "main e (prog # ''list'' # rest) w =
           (Exit 0, w0\<lparr>printed := printed w0 @
              (if pkgs = [] then [''No packages installed.'']
               else ''Installed packages:'' # map (\<lambda>p. ''- '' @ p) pkgs)\<rparr>)"
    by (simp only: main_list [OF init] finish_def prod.case option.case)
  moreover from ls obtain d where "resolve (files w0) (cwd e) (lib_dir e) = Inr d"
    and "pkgs = children (files w0) d"
    by (auto simp: os_listdir_def split: sum.splits option.splits node.splits)
  ultimately show ?thesis using l by (simp add: set_children)
qed

theorem list_command_prints_entries_witness:
  "init_dirs demo_env demo_world = (None, demo_world)
   \<and> os_listdir (files demo_world) (cwd demo_env) (lib_dir demo_env) = Inr [''math.nula'', ''io.nula'']
   \<and> main demo_env [''nula-packages'', ''list''] demo_world =
       (Exit 0, demo_world\<lparr>printed := [''Installed packages:'', ''- math.nula'', ''- io.nula'']\<rparr>)
   \<and> init_dirs \<lparr>home_dir = ''/'', cwd = [], server = demo_server\<rparr>
         \<lparr>files = [([], Dir True)], printed = []\<rparr> =
       (None, \<lparr>files = [([], Dir True), ([''.nula''], Dir True), ([''.nula'', ''lib''], Dir True)],
               printed = []\<rparr>)
   \<and> os_listdir [([], Dir True), ([''.nula''], Dir True), ([''.nula'', ''lib''], Dir True)] []
         (lib_dir \<lparr>home_dir = ''/'', cwd = [], server = demo_server\<rparr>) = Inr []
   \<and> main \<lparr>home_dir = ''/'', cwd = [], server = demo_server\<rparr> [''nula-packages'', ''list'', ''more'']
        \<lparr>files = [([], Dir True)], printed = []\<rparr> =
       (Exit 0, \<lparr>files = [([], Dir True), ([''.nula''], Dir True), ([''.nula'', ''lib''], Dir True)],
                 printed = [''No packages installed.'']\<rparr>)"
proof -
  have i: "init_dirs demo_env demo_world = (None, demo_world)"
    by code_simp
  have h: "os_listdir (files demo_world) (cwd demo_env) (lib_dir demo_env) = Inr [''math.nula'', ''io.nula'']"
    by code_simp
  have p: "printed demo_world = []" by (simp add: demo_world_def)
  let ?e = "\<lparr>home_dir = ''/'', cwd = [], server = demo_server\<rparr>"
  let ?u = "\<lparr>files = [([], Dir True)], printed = []\<rparr>"
  let ?v = "\<lparr>files = [([], Dir True), ([''.nula''], Dir True), ([''.nula'', ''lib''], Dir True)], printed = []\<rparr>"
  have i2: "init_dirs ?e ?u = (None, ?v)"
    by code_simp
  have h2: "os_listdir (files ?v) (cwd ?e) (lib_dir ?e) = Inr []"
    by code_simp
  show ?thesis
    using list_command_prints_entries [OF i h, THEN conjunct1, of "''nula-packages''" "[]"]
      list_command_prints_entries [OF i2 h2, THEN conjunct1, of "''nula-packages''" "[''more'']"]
      i h i2 h2 p by simp
qed

subsection \<open>The dispatcher\<close>

text \<open>
  Claim C6. The dispatcher checks the arguments before it routes: with no argument behind
  the program name it prints the usage text and exits with status 1; with \<open>install\<close> and
  no package name it prints the usage of \<open>install\<close> and exits with status 1; with a first
  argument that is neither \<open>install\<close> nor \<open>list\<close> it prints \<open>Unknown command:\<close> and
  the argument and exits with status 1. In none of the three cases is a file touched or
  anything else printed.
\<close>

theorem dispatcher_validates_arguments:
  "(length argv < 2 \<longrightarrow>
      dispatcher e argv w = (Exit 1, py_print ''Usage: nula-packages [install <pkg> | list]'' w))
   \<and> (length argv = 2 \<and> argv ! 1 = ''install'' \<longrightarrow>
      dispatcher e argv w = (Exit 1, py_print ''Usage: nula-packages install <pkg>'' w))
   \<and> (2 \<le> length argv \<and> argv ! 1 \<noteq> ''install'' \<and> argv ! 1 \<noteq> ''list'' \<longrightarrow>
      dispatcher e argv w = (Exit 1, py_print (''Unknown command: '' @ argv ! 1) w))
   \<and> exit_status (Exit 1) \<noteq> 0"
  by (simp add: dispatcher_def)

theorem dispatcher_validates_arguments_witness:
  "dispatcher demo_env [''nula-packages''] demo_world =
      (Exit 1, demo_world\<lparr>printed := [''Usage: nula-packages [install <pkg> | list]'']\<rparr>)
   \<and> dispatcher demo_env [''nula-packages'', ''install''] demo_world =
      (Exit 1, demo_world\<lparr>printed := [''Usage: nula-packages install <pkg>'']\<rparr>)
   \<and> dispatcher demo_env [''nula-packages'', ''remove'', ''math''] demo_world =
      (Exit 1, demo_world\<lparr>printed := [''Unknown command: remove'']\<rparr>)"
  using dispatcher_validates_arguments [of "[''nula-packages'']" demo_env demo_world]
    dispatcher_validates_arguments [of "[''nula-packages'', ''install'']" demo_env demo_world]
    dispatcher_validates_arguments [of "[''nula-packages'', ''remove'', ''math'']" demo_env demo_world]
  by (simp add: py_print_def demo_world_def)

end
